theory Spec2Isabelle
  imports Complex_Main "HOL-Library.Product_Lexorder" "HOL-Library.AList"
begin

section \<open>Dates, times and exceptions\<close>

text \<open>
  A Python \<^verbatim>\<open>date\<close> is modelled by its proleptic Gregorian ordinal
  (\<^verbatim>\<open>date.toordinal()\<close>): day 1 is 0001-01-01, a Monday, and \<^verbatim>\<open>date.max\<close>
  (9999-12-31) is day 3652059. A \<^verbatim>\<open>datetime\<close> is a date with hour, minute, second and
  microsecond. Hours of work are Python floats in the source; they are modelled by exact
  rationals.
\<close>

type_synonym date = int

datatype exn = ValueError string | OverflowError string | OtherError string

fun str_exn :: "exn \<Rightarrow> string" where
  "str_exn (ValueError m) = m"
| "str_exn (OverflowError m) = m"
| "str_exn (OtherError m) = m"

definition MAXORDINAL :: int where
  "MAXORDINAL = 3652059"

definition date_add_days :: "date \<Rightarrow> int \<Rightarrow> exn + date" where
  \<comment> \<open>\<^verbatim>\<open>date + timedelta(days=n)\<close>\<close>
  "date_add_days d n =
     (if 1 \<le> d + n \<and> d + n \<le> MAXORDINAL then Inr (d + n)
      else Inl (OverflowError ''date value out of range''))"

definition weekday :: "date \<Rightarrow> nat" where
  \<comment> \<open>\<^verbatim>\<open>date.weekday()\<close>: Monday is 0\<close>
  "weekday d = nat ((d + 6) mod 7)"

record datetime =
  dt_date :: date
  dt_hour :: nat
  dt_minute :: nat
  dt_second :: nat
  dt_microsecond :: nat

definition combine_min :: "date \<Rightarrow> datetime" where
  \<comment> \<open>\<^verbatim>\<open>datetime.combine(d, datetime.min.time())\<close>\<close>
  "combine_min d =
     \<lparr>dt_date = d, dt_hour = 0, dt_minute = 0, dt_second = 0, dt_microsecond = 0\<rparr>"

definition combine_max :: "date \<Rightarrow> datetime" where
  \<comment> \<open>\<^verbatim>\<open>datetime.combine(d, datetime.max.time())\<close>\<close>
  "combine_max d =
     \<lparr>dt_date = d, dt_hour = 23, dt_minute = 59, dt_second = 59, dt_microsecond = 999999\<rparr>"

definition datetime_min :: datetime where
  \<comment> \<open>\<^verbatim>\<open>datetime.min\<close>\<close>
  "datetime_min = combine_min 1"

definition replace_hour :: "datetime \<Rightarrow> nat \<Rightarrow> exn + datetime" where
  \<comment> \<open>\<^verbatim>\<open>t.replace(hour=h)\<close> raises ValueError outside 0..23\<close>
  "replace_hour t h =
     (if h \<le> 23 then Inr (t\<lparr>dt_hour := h\<rparr>)
      else Inl (ValueError ''hour must be in 0..23''))"

definition replace_hour_minute :: "datetime \<Rightarrow> nat \<Rightarrow> nat \<Rightarrow> exn + datetime" where
  \<comment> \<open>\<^verbatim>\<open>t.replace(hour=h, minute=m)\<close>\<close>
  "replace_hour_minute t h m =
     (if 23 < h then Inl (ValueError ''hour must be in 0..23'')
      else if 59 < m then Inl (ValueError ''minute must be in 0..59'')
      else Inr (t\<lparr>dt_hour := h, dt_minute := m\<rparr>))"

definition dt_micros :: "datetime \<Rightarrow> int" where
  \<comment> \<open>position of a datetime on the time line, in microseconds; datetimes compare by it\<close>
  "dt_micros t =
     (((dt_date t * 24 + int (dt_hour t)) * 60 + int (dt_minute t)) * 60
        + int (dt_second t)) * 1000000 + int (dt_microsecond t)"

definition hours_between :: "datetime \<Rightarrow> datetime \<Rightarrow> rat" where
  \<comment> \<open>\<^verbatim>\<open>(end_time - start_time).total_seconds() / 3600\<close>\<close>
  "hours_between s e = of_int (dt_micros e - dt_micros s) / 1000000 / 3600"

section \<open>Staff members and shifts\<close>

text \<open>
  The roster is the set of staff members of one generation pass: the staff list holds
  pairwise distinct objects, and so does the shift list. An object is identified by its
  position in its list, so \<open>assigned_staff\<close> holds positions in the staff list and
  \<open>assigned_shifts\<close> positions in the shift list. An attribute that the source probes
  with \<^verbatim>\<open>hasattr\<close> or \<^verbatim>\<open>getattr\<close> is an option, \<open>None\<close> when the attribute is absent.
\<close>

record staff_member =
  staff_id :: nat
  total_hours :: rat
  assigned_shifts :: "nat list"

record shift =
  start_time :: "datetime option"
  end_time :: "datetime option"
  assigned_staff :: "nat list"
  required_staff :: "int option"
  duration_hours :: "rat option"
  required_skills :: "string list option"
  shift_type :: string

definition get_required_staff :: "shift \<Rightarrow> int" where
  \<comment> \<open>\<^verbatim>\<open>getattr(shift, 'required_staff', 1)\<close>\<close>
  "get_required_staff s = (case required_staff s of None \<Rightarrow> 1 | Some n \<Rightarrow> n)"

definition get_required_skills :: "shift \<Rightarrow> string list" where
  \<comment> \<open>\<^verbatim>\<open>getattr(shift, 'required_skills', [])\<close>\<close>
  "get_required_skills s = (case required_skills s of None \<Rightarrow> [] | Some ks \<Rightarrow> ks)"

section \<open>The shift catalog of the client\<close>

definition MockShift :: "datetime \<Rightarrow> datetime \<Rightarrow> string \<Rightarrow> shift" where
  "MockShift st en ty =
     \<lparr>start_time = Some st, end_time = Some en, assigned_staff = [],
      required_staff = Some 1, duration_hours = Some (hours_between st en),
      required_skills = Some [], shift_type = ty\<rparr>"

definition get_shift_times :: "date \<Rightarrow> nat \<Rightarrow> int \<Rightarrow> string \<Rightarrow> exn + (datetime \<times> datetime)" where
  "get_shift_times d shift_num shifts_per_day ty =
     (let base_date = combine_min d in
      if ty = ''day'' then
        (let start_hour = 8 + shift_num in
         case replace_hour base_date start_hour of Inl e \<Rightarrow> Inl e
         | Inr st \<Rightarrow>
           (case replace_hour base_date (start_hour + 8) of Inl e \<Rightarrow> Inl e
            | Inr en \<Rightarrow> Inr (st, en)))
      else if ty = ''night'' then
        (let start_hour = 22 + shift_num in
         case date_add_days d 1 of Inl e \<Rightarrow> Inl e
         | Inr end_date \<Rightarrow>
           (case replace_hour base_date start_hour of Inl e \<Rightarrow> Inl e
            | Inr st \<Rightarrow>
              (case replace_hour (combine_min end_date) ((start_hour + 8) mod 24) of
                 Inl e \<Rightarrow> Inl e
               | Inr en \<Rightarrow> Inr (st, en))))
      else if shift_num = 0 then
        (case replace_hour base_date 8 of Inl e \<Rightarrow> Inl e
         | Inr st \<Rightarrow>
           (case replace_hour base_date 16 of Inl e \<Rightarrow> Inl e
            | Inr en \<Rightarrow> Inr (st, en)))
      else
        (case replace_hour base_date 16 of Inl e \<Rightarrow> Inl e
         | Inr st \<Rightarrow>
           (case replace_hour_minute base_date 23 59 of Inl e \<Rightarrow> Inl e
            | Inr en \<Rightarrow> Inr (st, en))))"

text \<open>The inner loop \<^verbatim>\<open>for shift_num in range(shifts_per_day)\<close> of one day; the first
  exception ends it.\<close>

fun shifts_of_day :: "date \<Rightarrow> nat list \<Rightarrow> int \<Rightarrow> string \<Rightarrow> exn + shift list" where
  "shifts_of_day d [] shifts_per_day ty = Inr []"
| "shifts_of_day d (shift_num # rest) shifts_per_day ty =
     (case get_shift_times d shift_num shifts_per_day ty of Inl e \<Rightarrow> Inl e
      | Inr (st, en) \<Rightarrow>
        (case shifts_of_day d rest shifts_per_day ty of Inl e \<Rightarrow> Inl e
         | Inr ss \<Rightarrow> Inr (MockShift st en ty # ss)))"

text \<open>The outer loop \<^verbatim>\<open>while current_date <= end_date\<close>; stepping past
  \<^verbatim>\<open>date.max\<close> raises OverflowError.\<close>

function generate_shifts_from :: "date \<Rightarrow> date \<Rightarrow> int \<Rightarrow> string \<Rightarrow> exn + shift list" where
  "generate_shifts_from current_date end_date shifts_per_day ty =
     (if current_date \<le> end_date then
        (case shifts_of_day current_date [0..<nat shifts_per_day] shifts_per_day ty of
           Inl e \<Rightarrow> Inl e
         | Inr ss \<Rightarrow>
           (if current_date + 1 \<le> MAXORDINAL then
              (case generate_shifts_from (current_date + 1) end_date shifts_per_day ty of
                 Inl e \<Rightarrow> Inl e
               | Inr rest \<Rightarrow> Inr (ss @ rest))
            else Inl (OverflowError ''date value out of range'')))
      else Inr [])"
  by pat_completeness auto
termination
  by (relation "measure (\<lambda>(c, e, n, ty). nat (e + 1 - c))") auto

declare generate_shifts_from.simps [simp del]

definition generate_shifts_for_period ::
    "nat \<Rightarrow> date \<Rightarrow> date \<Rightarrow> int \<Rightarrow> string \<Rightarrow> exn + shift list" where
  "generate_shifts_for_period schedule_id start_date end_date shifts_per_day ty =
     generate_shifts_from start_date end_date shifts_per_day ty"

section \<open>Balance validation\<close>

text \<open>A summary is a dictionary from keys to numbers, kept as an association list.\<close>

type_synonym summary_dict = "(string \<times> rat) list"

definition summary_get :: "summary_dict \<Rightarrow> string \<Rightarrow> rat" where
  \<comment> \<open>\<^verbatim>\<open>summary.get(key, 0)\<close>\<close>
  "summary_get sm k = (case map_of sm k of None \<Rightarrow> 0 | Some v \<Rightarrow> v)"

definition validate_schedule_results :: "summary_dict \<Rightarrow> nat \<Rightarrow> exn + unit" where
  "validate_schedule_results sm staff_count =
     (if sm = [] then Inr ()
      else if summary_get sm ''max_hours'' - summary_get sm ''min_hours'' > 20 then
        Inl (ValueError ''Schedule too unbalanced - hour difference exceeds 20 hours'')
      else if summary_get sm ''total_shifts_assigned'' < of_nat staff_count then
        Inl (ValueError ''Not enough shifts assigned - some staff may have no shifts'')
      else if summary_get sm ''max_hours''
                > summary_get sm ''average_hours_per_staff'' * (3 / 2) then
        Inl (ValueError ''Schedule distribution too uneven'')
      else Inr ())"

section \<open>Preferences\<close>

text \<open>
  \<^verbatim>\<open>get_preferences\<close> belongs to the preference store, outside the engine. A lookup
  raises, returns nothing, or returns a record; a record carries the four keys the engine
  reads. The lookup is a parameter \<open>gp\<close> of every function that calls it.
\<close>

record prefs =
  preferred_shift_types :: "string list"
  unavailable_days :: "nat list"
  max_hours_per_week :: rat
  skills :: "string list"

datatype pref_lookup = Failed | Missing | Found prefs

type_synonym roster_state = "staff_member list \<times> shift list"

section \<open>Helpers of the strategy base class\<close>

definition reset_assignments :: "staff_member list \<Rightarrow> shift list \<Rightarrow> roster_state" where
  \<comment> \<open>Modelled from the spec: \<^verbatim>\<open>SchedulingStrategy._reset_assignments\<close> is not among the
     sources. It zeroes every staff member's total_hours, clears assigned_shifts and clears
     every shift's assigned_staff.\<close>
  "reset_assignments staff shifts =
     (map (\<lambda>p. p\<lparr>total_hours := 0, assigned_shifts := []\<rparr>) staff,
      map (\<lambda>s. s\<lparr>assigned_staff := []\<rparr>) shifts)"

definition generate_summary :: "staff_member list \<Rightarrow> summary_dict" where
  \<comment> \<open>Modelled from the spec: \<^verbatim>\<open>SchedulingStrategy._generate_summary\<close> is not among the
     sources. It gives the minimum, average and maximum total_hours across the roster, the
     number of staff with at least one assigned shift and the total of shifts assigned,
     under the keys the balance validation reads; an empty roster gives an empty summary.\<close>
  "generate_summary staff =
     (if staff = [] then []
      else
        [(''min_hours'', Min (set (map total_hours staff))),
         (''average_hours_per_staff'', sum_list (map total_hours staff) / of_nat (length staff)),
         (''max_hours'', Max (set (map total_hours staff))),
         (''staff_with_shifts'', of_nat (length (filter (\<lambda>p. assigned_shifts p \<noteq> []) staff))),
         (''total_shifts_assigned'',
            of_nat (sum_list (map (\<lambda>p. length (assigned_shifts p)) staff)))])"

record schedule_entry =
  entry_start_time :: "datetime option"
  entry_end_time :: "datetime option"
  entry_staff :: "nat list"

definition format_schedule :: "staff_member list \<Rightarrow> shift list \<Rightarrow> schedule_entry list" where
  \<comment> \<open>Modelled from the spec: \<^verbatim>\<open>SchedulingStrategy._format_schedule\<close> is not among the
     sources. It lists, for every shift, its times and the identifiers of its assigned
     staff.\<close>
  "format_schedule staff shifts =
     map (\<lambda>s. \<lparr>entry_start_time = start_time s, entry_end_time = end_time s,
               entry_staff = map (\<lambda>p. staff_id (staff ! p)) (assigned_staff s)\<rparr>) shifts"

record schedule_result =
  strategy :: string
  schedule :: "schedule_entry list"
  summary :: summary_dict
  score_entry :: "string \<times> rat"

section \<open>PreferenceBasedStrategy\<close>

definition default_preferences :: prefs where
  "default_preferences =
     \<lparr>preferred_shift_types = [], unavailable_days = [], max_hours_per_week = 40, skills = []\<rparr>"

definition empty_preferences :: prefs where
  \<comment> \<open>what the \<^verbatim>\<open>.get(key, default)\<close> calls read from the empty dictionary\<close>
  "empty_preferences =
     \<lparr>preferred_shift_types = [], unavailable_days = [], max_hours_per_week = 40, skills = []\<rparr>"

definition staff_preferences :: "(nat \<Rightarrow> pref_lookup) \<Rightarrow> staff_member list \<Rightarrow> (nat \<rightharpoonup> prefs)" where
  \<comment> \<open>the dictionary \<^verbatim>\<open>staff_preferences\<close>, keyed by the staff object\<close>
  "staff_preferences gp staff =
     (\<lambda>person. if person < length staff then
        Some (case gp (staff_id (staff ! person)) of
                Found p \<Rightarrow> p
              | Missing \<Rightarrow> default_preferences
              | Failed \<Rightarrow> default_preferences)
      else None)"

definition preferences_get :: "(nat \<rightharpoonup> prefs) \<Rightarrow> nat \<Rightarrow> prefs" where
  \<comment> \<open>\<^verbatim>\<open>preferences.get(staff, {})\<close>\<close>
  "preferences_get preferences person =
     (case preferences person of None \<Rightarrow> empty_preferences | Some p \<Rightarrow> p)"

definition pb_get_shift_type :: "shift \<Rightarrow> string" where
  "pb_get_shift_type sh =
     (case start_time sh of None \<Rightarrow> ''regular''
      | Some t \<Rightarrow>
        (let hour = dt_hour t in
         if 6 \<le> hour \<and> hour < 14 then ''morning''
         else if 14 \<le> hour \<and> hour < 22 then ''evening''
         else ''night''))"

definition pb_can_work_shift :: "nat \<Rightarrow> shift \<Rightarrow> (nat \<rightharpoonup> prefs) \<Rightarrow> bool" where
  "pb_can_work_shift person sh preferences =
     (case start_time sh of None \<Rightarrow> False
      | Some t \<Rightarrow>
        (let prefs = preferences_get preferences person;
             staff_skills = skills prefs;
             req = get_required_skills sh in
         if weekday (dt_date t) \<in> set (unavailable_days prefs) then False
         else if req \<noteq> [] \<and> \<not> list_all (\<lambda>skill. skill \<in> set staff_skills) req then False
         else True))"

definition pb_calculate_preference_score ::
    "nat \<Rightarrow> nat \<Rightarrow> string \<Rightarrow> (nat \<rightharpoonup> prefs) \<Rightarrow> int" where
  "pb_calculate_preference_score person day ty preferences =
     (let prefs = preferences_get preferences person;
          score = (if ty \<in> set (preferred_shift_types prefs) then 3 else 0) in
      if day \<in> set (unavailable_days prefs) then score - 10 else score)"

definition pb_assign_shift :: "nat \<Rightarrow> nat \<Rightarrow> roster_state \<Rightarrow> roster_state" where
  "pb_assign_shift person si st =
     (let staff = fst st; shifts = snd st;
          sh = shifts ! si; p = staff ! person;
          duration =
            (case (start_time sh, end_time sh) of
               (Some s, Some e) \<Rightarrow> hours_between s e
             | _ \<Rightarrow> (case duration_hours sh of None \<Rightarrow> 8 | Some d \<Rightarrow> d)) in
      (staff[person := p\<lparr>total_hours := total_hours p + duration,
                         assigned_shifts := assigned_shifts p @ [si]\<rparr>],
       shifts[si := sh\<lparr>assigned_staff := assigned_staff sh @ [person]\<rparr>]))"

definition pb_candidates ::
    "(nat \<rightharpoonup> prefs) \<Rightarrow> staff_member list \<Rightarrow> shift \<Rightarrow> (nat \<times> int \<times> rat) list" where
  \<comment> \<open>the loop that builds \<^verbatim>\<open>candidates\<close> for one shift\<close>
  "pb_candidates preferences staff sh =
     (let ty = pb_get_shift_type sh;
          shift_day = (case start_time sh of None \<Rightarrow> 0 | Some t \<Rightarrow> weekday (dt_date t)) in
      map (\<lambda>person. (person, pb_calculate_preference_score person shift_day ty preferences,
                      total_hours (staff ! person)))
        (filter (\<lambda>person. pb_can_work_shift person sh preferences \<and>
                   total_hours (staff ! person)
                     < max_hours_per_week (preferences_get preferences person))
           [0..<length staff]))"

definition pb_fill_shift :: "(nat \<rightharpoonup> prefs) \<Rightarrow> roster_state \<Rightarrow> nat \<Rightarrow> roster_state" where
  \<comment> \<open>the body of the loop over \<^verbatim>\<open>sorted_shifts\<close>\<close>
  "pb_fill_shift preferences st si =
     (let sh = snd st ! si;
          needed = get_required_staff sh - int (length (assigned_staff sh)) in
      if needed \<le> 0 then st
      else
        (let candidates =
               sort_key (\<lambda>(person, score, hours). (- score, hours))
                 (pb_candidates preferences (fst st) sh) in
         foldl (\<lambda>st' (person, score, hours). pb_assign_shift person si st') st
           (take (nat needed) candidates)))"

definition pb_preferred_share :: "(nat \<Rightarrow> pref_lookup) \<Rightarrow> shift list \<Rightarrow> staff_member \<Rightarrow> rat option" where
  \<comment> \<open>what one staff member adds to \<^verbatim>\<open>total_score\<close>; \<open>None\<close> when the member is skipped\<close>
  "pb_preferred_share gp shifts p =
     (if assigned_shifts p = [] then None
      else
        (case gp (staff_id p) of
           Failed \<Rightarrow> None
         | Missing \<Rightarrow> Some 0
         | Found pr \<Rightarrow>
             Some (of_nat (length (filter (\<lambda>si. pb_get_shift_type (shifts ! si)
                                              \<in> set (preferred_shift_types pr))
                                     (assigned_shifts p)))
                   / of_nat (length (assigned_shifts p)) * 100)))"

definition pb_calculate_overall_preference_score ::
    "(nat \<Rightarrow> pref_lookup) \<Rightarrow> staff_member list \<Rightarrow> shift list \<Rightarrow> rat" where
  "pb_calculate_overall_preference_score gp staff shifts =
     (if staff = [] then 0
      else
        (let shares = List.map_filter (pb_preferred_share gp shifts) staff;
             total_score = sum_list shares;
             staff_count = length shares in
         if staff_count > 0 then total_score / of_nat staff_count else 0))"

definition pb_create_schedule_result ::
    "(nat \<Rightarrow> pref_lookup) \<Rightarrow> staff_member list \<Rightarrow> shift list \<Rightarrow> schedule_result" where
  "pb_create_schedule_result gp staff shifts =
     \<lparr>strategy = ''Preference Based'',
      schedule = format_schedule staff shifts,
      summary = generate_summary staff,
      score_entry = (''preference_score'', pb_calculate_overall_preference_score gp staff shifts)\<rparr>"

definition shift_sort_key :: "shift \<Rightarrow> int" where
  \<comment> \<open>\<^verbatim>\<open>getattr(x, 'start_time', datetime.min)\<close>, as its position on the time line\<close>
  "shift_sort_key sh =
     dt_micros (case start_time sh of None \<Rightarrow> datetime_min | Some t \<Rightarrow> t)"

definition pb_generate_schedule ::
    "(nat \<Rightarrow> pref_lookup) \<Rightarrow> staff_member list \<Rightarrow> shift list \<Rightarrow> date \<Rightarrow> date
       \<Rightarrow> schedule_result \<times> roster_state" where
  "pb_generate_schedule gp staff0 shifts0 start_date end_date =
     (let st0 = reset_assignments staff0 shifts0;
          preferences = staff_preferences gp (fst st0);
          sorted_shifts = sort_key (\<lambda>si. shift_sort_key (snd st0 ! si)) [0..<length (snd st0)];
          st = foldl (pb_fill_shift preferences) st0 sorted_shifts in
      (pb_create_schedule_result gp (fst st) (snd st), st))"

section \<open>DayNightDistributeStrategy\<close>

definition dn_get_shift_type :: "shift \<Rightarrow> string" where
  "dn_get_shift_type sh =
     (case start_time sh of None \<Rightarrow> ''regular''
      | Some t \<Rightarrow>
        (let hour = dt_hour t in
         if 6 \<le> hour \<and> hour < 18 then (if hour < 14 then ''day'' else ''evening'')
         else ''night''))"

definition dn_day_shifts :: "shift list \<Rightarrow> nat list" where
  \<comment> \<open>the list \<^verbatim>\<open>day_shifts\<close> after the first loop of \<^verbatim>\<open>generate_schedule\<close>\<close>
  "dn_day_shifts shifts =
     filter (\<lambda>si. dn_get_shift_type (shifts ! si) \<in> set [''morning'', ''evening''])
       [0..<length shifts]"

definition dn_night_shifts :: "shift list \<Rightarrow> nat list" where
  \<comment> \<open>the list \<^verbatim>\<open>night_shifts\<close> after the first loop of \<^verbatim>\<open>generate_schedule\<close>\<close>
  "dn_night_shifts shifts =
     filter (\<lambda>si. dn_get_shift_type (shifts ! si) \<notin> set [''morning'', ''evening''])
       [0..<length shifts]"

datatype staff_group = DayStaff | NightStaff | NeutralStaff

definition dn_staff_group :: "(nat \<Rightarrow> pref_lookup) \<Rightarrow> staff_member \<Rightarrow> staff_group" where
  \<comment> \<open>the list that the second loop of \<^verbatim>\<open>generate_schedule\<close> appends a person to\<close>
  "dn_staff_group gp p =
     (case gp (staff_id p) of
        Failed \<Rightarrow> NeutralStaff
      | lookup \<Rightarrow>
        (let preferred_types =
               (case lookup of Found pr \<Rightarrow> preferred_shift_types pr | _ \<Rightarrow> []);
             day_pref = list_ex (\<lambda>t. t \<in> set [''morning'', ''evening'']) preferred_types;
             night_pref = (''night'' \<in> set preferred_types) in
         if day_pref \<and> \<not> night_pref then DayStaff
         else if night_pref \<and> \<not> day_pref then NightStaff
         else NeutralStaff))"

definition dn_group_members ::
    "(nat \<Rightarrow> pref_lookup) \<Rightarrow> staff_member list \<Rightarrow> staff_group \<Rightarrow> nat list" where
  "dn_group_members gp staff g =
     filter (\<lambda>person. dn_staff_group gp (staff ! person) = g) [0..<length staff]"

definition dn_can_work_shift :: "(nat \<Rightarrow> pref_lookup) \<Rightarrow> staff_member \<Rightarrow> shift \<Rightarrow> bool" where
  "dn_can_work_shift gp p sh =
     (case start_time sh of None \<Rightarrow> False
      | Some t \<Rightarrow>
        (let found = (case gp (staff_id p) of Found pr \<Rightarrow> Some pr | _ \<Rightarrow> None);
             unavailable = (case found of Some pr \<Rightarrow> unavailable_days pr | None \<Rightarrow> []);
             staff_skills = (case found of Some pr \<Rightarrow> skills pr | None \<Rightarrow> []);
             req = get_required_skills sh in
         weekday (dt_date t) \<notin> set unavailable
           \<and> list_all (\<lambda>skill. skill \<in> set staff_skills) req))"

definition dn_get_shift_duration :: "shift \<Rightarrow> rat" where
  "dn_get_shift_duration sh =
     (case (start_time sh, end_time sh) of
        (Some s, Some e) \<Rightarrow> hours_between s e
      | _ \<Rightarrow> (case duration_hours sh of None \<Rightarrow> 8 | Some d \<Rightarrow> d))"

definition dn_assign_shift :: "nat \<Rightarrow> nat \<Rightarrow> roster_state \<Rightarrow> roster_state" where
  "dn_assign_shift person si st =
     (let staff = fst st; shifts = snd st;
          sh = shifts ! si; p = staff ! person in
      (staff[person := p\<lparr>total_hours := total_hours p + dn_get_shift_duration sh,
                         assigned_shifts := assigned_shifts p @ [si]\<rparr>],
       shifts[si := sh\<lparr>assigned_staff := assigned_staff sh @ [person]\<rparr>]))"

definition dn_max_hours :: "(nat \<Rightarrow> pref_lookup) \<Rightarrow> staff_member \<Rightarrow> rat" where
  \<comment> \<open>\<^verbatim>\<open>max_hours\<close> as \<^verbatim>\<open>_assign_if_available\<close> reads it\<close>
  "dn_max_hours gp p =
     (case gp (staff_id p) of Found pr \<Rightarrow> max_hours_per_week pr | _ \<Rightarrow> 40)"

definition dn_assign_if_available ::
    "(nat \<Rightarrow> pref_lookup) \<Rightarrow> nat \<Rightarrow> nat \<Rightarrow> roster_state \<Rightarrow> bool \<times> roster_state" where
  "dn_assign_if_available gp person si st =
     (let max_hours = dn_max_hours gp (fst st ! person);
          current_hours = total_hours (fst st ! person);
          shift_hours = dn_get_shift_duration (snd st ! si) in
      if current_hours + shift_hours \<le> max_hours then (True, dn_assign_shift person si st)
      else (False, st))"

type_synonym dn_state = "roster_state \<times> nat list"

definition dn_try_person ::
    "(nat \<Rightarrow> pref_lookup) \<Rightarrow> nat \<Rightarrow> dn_state \<Rightarrow> nat \<Rightarrow> dn_state" where
  \<comment> \<open>the body of \<^verbatim>\<open>for person in candidates[:needed]\<close>; the second component is
     \<^verbatim>\<open>neutral_staff\<close>\<close>
  "dn_try_person gp si dst person =
     (let st = fst dst; neutral_staff = snd dst;
          r = dn_assign_if_available gp person si st in
      if fst r then
        (snd r, if person \<in> set neutral_staff then remove1 person neutral_staff
                else neutral_staff)
      else (snd r, neutral_staff))"

definition dn_fill_shift ::
    "(nat \<Rightarrow> pref_lookup) \<Rightarrow> nat list \<Rightarrow> dn_state \<Rightarrow> nat \<Rightarrow> dn_state" where
  \<comment> \<open>the body of the loops over \<^verbatim>\<open>day_shifts\<close> and over \<^verbatim>\<open>night_shifts\<close>; \<open>preferring\<close>
     is \<^verbatim>\<open>day_staff\<close> in the first and \<^verbatim>\<open>night_staff\<close> in the second\<close>
  "dn_fill_shift gp preferring dst si =
     (let st = fst dst; neutral_staff = snd dst;
          sh = snd st ! si;
          needed = get_required_staff sh - int (length (assigned_staff sh)) in
      if needed \<le> 0 then dst
      else
        (let candidates =
               filter (\<lambda>s. dn_can_work_shift gp (fst st ! s) sh) (preferring @ neutral_staff);
             candidates = sort_key (\<lambda>x. total_hours (fst st ! x)) candidates in
         foldl (dn_try_person gp si) dst (take (nat needed) candidates)))"

definition dn_calculate_distribution_score :: "nat \<Rightarrow> nat \<Rightarrow> nat \<Rightarrow> nat \<Rightarrow> rat" where
  "dn_calculate_distribution_score day_shifts night_shifts day_staff night_staff =
     (if day_shifts + night_shifts = 0 then 0
      else
        (let total_staff = day_staff + night_staff in
         if total_staff = 0 then 0
         else
           (let ideal_day_ratio = of_nat day_staff / of_nat total_staff;
                actual_day_ratio =
                  (if day_shifts + night_shifts > 0
                   then of_nat day_shifts / of_nat (day_shifts + night_shifts) else 0);
                deviation = \<bar>ideal_day_ratio - actual_day_ratio\<bar> in
            max 0 (100 - deviation * 200))))"

definition dn_create_schedule_result ::
    "staff_member list \<Rightarrow> shift list \<Rightarrow> nat \<Rightarrow> nat \<Rightarrow> schedule_result" where
  "dn_create_schedule_result staff shifts day_staff_count night_staff_count =
     (let day_shifts =
            length (filter (\<lambda>s. dn_get_shift_type s \<in> set [''day'', ''evening'']
                                 \<and> assigned_staff s \<noteq> []) shifts);
          night_shifts =
            length (filter (\<lambda>s. dn_get_shift_type s = ''night''
                                 \<and> assigned_staff s \<noteq> []) shifts);
          sm = AList.update ''night_shifts_assigned'' (of_nat night_shifts)
                (AList.update ''day_shifts_assigned'' (of_nat day_shifts)
                  (AList.update ''night_staff_count'' (of_nat night_staff_count)
                    (AList.update ''day_staff_count'' (of_nat day_staff_count)
                      (generate_summary staff)))) in
      \<lparr>strategy = ''Day/Night Distribution'',
       schedule = format_schedule staff shifts,
       summary = sm,
       score_entry = (''distribution_score'',
          dn_calculate_distribution_score day_shifts night_shifts
            day_staff_count night_staff_count)\<rparr>)"

definition dn_generate_schedule ::
    "(nat \<Rightarrow> pref_lookup) \<Rightarrow> staff_member list \<Rightarrow> shift list \<Rightarrow> date \<Rightarrow> date
       \<Rightarrow> schedule_result \<times> roster_state" where
  "dn_generate_schedule gp staff0 shifts0 start_date end_date =
     (let st0 = reset_assignments staff0 shifts0;
          day_shifts = dn_day_shifts (snd st0);
          night_shifts = dn_night_shifts (snd st0);
          day_staff = dn_group_members gp (fst st0) DayStaff;
          night_staff = dn_group_members gp (fst st0) NightStaff;
          neutral_staff = dn_group_members gp (fst st0) NeutralStaff;
          dst1 = foldl (dn_fill_shift gp day_staff) (st0, neutral_staff) day_shifts;
          dst2 = foldl (dn_fill_shift gp night_staff) dst1 night_shifts;
          st = fst dst2 in
      (dn_create_schedule_result (fst st) (snd st) (length day_staff) (length night_staff),
       st))"

section \<open>The registries: Scheduler and ScheduleClient\<close>

text \<open>
  A strategy mutates the staff and the shifts it is given and returns a result or raises.
  EvenDistributeStrategy, MinimizeDaysStrategy and ShiftTypeStrategy are not among the
  sources; the registries take them as parameters.
\<close>

type_synonym strategy_fn =
  "staff_member list \<Rightarrow> shift list \<Rightarrow> date \<Rightarrow> date \<Rightarrow> (exn + schedule_result) \<times> roster_state"

definition run_strategy ::
    "(staff_member list \<Rightarrow> shift list \<Rightarrow> date \<Rightarrow> date \<Rightarrow> schedule_result \<times> roster_state)
       \<Rightarrow> strategy_fn" where
  \<comment> \<open>a strategy that never raises, as an entry of a registry\<close>
  "run_strategy f staff shifts start_date end_date =
     (let r = f staff shifts start_date end_date in (Inr (fst r), snd r))"

definition scheduler_strategies ::
    "(nat \<Rightarrow> pref_lookup) \<Rightarrow> strategy_fn \<Rightarrow> strategy_fn \<Rightarrow> strategy_fn
       \<Rightarrow> (string \<times> strategy_fn) list" where
  \<comment> \<open>\<^verbatim>\<open>Scheduler.__init__\<close>\<close>
  "scheduler_strategies gp even_distribute minimize_days shift_type_optimize =
     [(''even_distribute'', even_distribute),
      (''minimize_days'', minimize_days),
      (''shift_type_optimize'', shift_type_optimize),
      (''preference_based'', run_strategy (pb_generate_schedule gp)),
      (''day_night_distribute'', run_strategy (dn_generate_schedule gp))]"

definition client_strategies ::
    "(nat \<Rightarrow> pref_lookup) \<Rightarrow> strategy_fn \<Rightarrow> strategy_fn \<Rightarrow> (string \<times> strategy_fn) list" where
  \<comment> \<open>\<^verbatim>\<open>ScheduleClient.__init__\<close>\<close>
  "client_strategies gp even_distribute minimize_days =
     [(''even-distribute'', even_distribute),
      (''minimize-days'', minimize_days),
      (''preference-based'', run_strategy (pb_generate_schedule gp)),
      (''day-night-distribute'', run_strategy (dn_generate_schedule gp))]"

fun join_strings :: "string \<Rightarrow> string list \<Rightarrow> string" where
  "join_strings sep [] = []"
| "join_strings sep [x] = x"
| "join_strings sep (x # y # ys) = x @ sep @ join_strings sep (y # ys)"

definition repr_str_list :: "string list \<Rightarrow> string" where
  \<comment> \<open>how an f-string prints a list of plain names: \<^verbatim>\<open>['a', 'b']\<close>\<close>
  "repr_str_list xs =
     ''['' @ join_strings '', '' (map (\<lambda>x. [CHR 0x27] @ x @ [CHR 0x27]) xs) @ '']''"

definition get_available_strategies :: "(string \<times> strategy_fn) list \<Rightarrow> string list" where
  "get_available_strategies strategies = map fst strategies"

definition scheduler_generate_schedule ::
    "(string \<times> strategy_fn) list \<Rightarrow> string \<Rightarrow> staff_member list \<Rightarrow> shift list \<Rightarrow> date \<Rightarrow> date
       \<Rightarrow> (exn + schedule_result) \<times> roster_state" where
  \<comment> \<open>\<^verbatim>\<open>Scheduler.generate_schedule\<close>\<close>
  "scheduler_generate_schedule strategies strategy_name staff shifts start_date end_date =
     (case map_of strategies strategy_name of
        None \<Rightarrow>
          (Inl (ValueError (''Unknown strategy: '' @ strategy_name
                  @ ''. Available strategies: '' @ repr_str_list (map fst strategies))),
           (staff, shifts))
      | Some strat \<Rightarrow> strat staff shifts start_date end_date)"

definition client_generate_schedule ::
    "(string \<times> strategy_fn) list \<Rightarrow> string \<Rightarrow> staff_member list \<Rightarrow> shift list \<Rightarrow> date \<Rightarrow> date
       \<Rightarrow> (exn + schedule_result) \<times> roster_state" where
  \<comment> \<open>\<^verbatim>\<open>ScheduleClient.generate_schedule\<close>\<close>
  "client_generate_schedule strategies strategy_name staff shifts start_date end_date =
     (case map_of strategies strategy_name of
        None \<Rightarrow> (Inl (ValueError (''Unknown strategy: '' @ strategy_name)), (staff, shifts))
      | Some strat \<Rightarrow> strat staff shifts start_date end_date)"

section \<open>Persistence\<close>

text \<open>
  The database session: the committed rows of the Shift table, the rows marked by
  \<^verbatim>\<open>session.delete\<close> (positions in the table), the rows given to \<^verbatim>\<open>session.add\<close>,
  and, as the part of the environment that decides it, whether each commit still to come
  raises (a commit beyond the end of the list succeeds). The session is taken to have
  nothing pending when a query runs.
\<close>

record shift_row =
  row_schedule_id :: nat
  row_staff_id :: nat
  row_start_time :: "datetime option"
  row_end_time :: "datetime option"

record db_session =
  stored :: "shift_row list"
  pending_delete :: "nat list"
  pending_add :: "shift_row list"
  commit_raises :: "bool list"

definition session_commit :: "db_session \<Rightarrow> (exn + unit) \<times> db_session" where
  "session_commit db =
     (case commit_raises db of
        True # rest \<Rightarrow> (Inl (OtherError ''commit failed''), db\<lparr>commit_raises := rest\<rparr>)
      | _ \<Rightarrow>
        (Inr (),
         db\<lparr>stored := map (\<lambda>i. stored db ! i)
                         (filter (\<lambda>i. i \<notin> set (pending_delete db)) [0..<length (stored db)])
                       @ pending_add db,
            pending_delete := [], pending_add := [],
            commit_raises := tl (commit_raises db)\<rparr>))"

definition session_rollback :: "db_session \<Rightarrow> db_session" where
  "session_rollback db = db\<lparr>pending_delete := [], pending_add := []\<rparr>"

definition in_window :: "nat \<Rightarrow> date \<Rightarrow> date \<Rightarrow> shift_row \<Rightarrow> bool" where
  \<comment> \<open>the filter of the query in \<^verbatim>\<open>_clear_existing_shifts\<close>\<close>
  "in_window schedule_id start_date end_date r =
     (case row_start_time r of None \<Rightarrow> False
      | Some t \<Rightarrow>
          row_schedule_id r = schedule_id
            \<and> dt_micros (combine_min start_date) \<le> dt_micros t
            \<and> dt_micros t \<le> dt_micros (combine_max end_date))"

definition clear_existing_shifts ::
    "nat \<Rightarrow> date \<Rightarrow> date \<Rightarrow> db_session \<Rightarrow> (exn + nat) \<times> db_session" where
  "clear_existing_shifts schedule_id start_date end_date db =
     (let hits = filter (\<lambda>i. in_window schedule_id start_date end_date (stored db ! i))
                   [0..<length (stored db)];
          r = session_commit (db\<lparr>pending_delete := pending_delete db @ hits\<rparr>) in
      case fst r of Inl e \<Rightarrow> (Inl e, snd r) | Inr u \<Rightarrow> (Inr (length hits), snd r))"

definition rows_of_shifts :: "nat \<Rightarrow> staff_member list \<Rightarrow> shift list \<Rightarrow> shift_row list" where
  \<comment> \<open>the rows that the loop of \<^verbatim>\<open>_save_shifts_to_db\<close> adds to the session\<close>
  "rows_of_shifts schedule_id staff shifts =
     concat (map (\<lambda>sh. map (\<lambda>person.
                     \<lparr>row_schedule_id = schedule_id, row_staff_id = staff_id (staff ! person),
                      row_start_time = start_time sh, row_end_time = end_time sh\<rparr>)
                   (assigned_staff sh)) shifts)"

definition save_shifts_to_db ::
    "nat \<Rightarrow> staff_member list \<Rightarrow> shift list \<Rightarrow> db_session \<Rightarrow> (exn + nat) \<times> db_session" where
  "save_shifts_to_db schedule_id staff shifts db =
     (let rows = rows_of_shifts schedule_id staff shifts;
          shifts_created = length rows;
          r = session_commit (db\<lparr>pending_add := pending_add db @ rows\<rparr>) in
      case fst r of
        Inl e \<Rightarrow> (Inl e, session_rollback (snd r))
      | Inr u \<Rightarrow> (Inr shifts_created, snd r))"

record assignment =
  asg_staff_id :: nat
  asg_start_time :: "datetime option"
  asg_end_time :: "datetime option"

definition get_assignments_list :: "staff_member list \<Rightarrow> shift list \<Rightarrow> assignment list" where
  "get_assignments_list staff shifts =
     concat (map (\<lambda>sh. map (\<lambda>person.
                     \<lparr>asg_staff_id = staff_id (staff ! person),
                      asg_start_time = start_time sh, asg_end_time = end_time sh\<rparr>)
                   (assigned_staff sh)) shifts)"

section \<open>auto_populate\<close>

record populate_success =
  ps_schedule_id :: nat
  shifts_created :: nat
  shifts_deleted :: nat
  ps_score :: rat
  ps_summary :: summary_dict
  assignments :: "assignment list"
  strategy_used :: string

datatype response = Success populate_success | Failure string

datatype outcome = Raised exn | Returned response

definition result_score :: "schedule_result \<Rightarrow> rat" where
  \<comment> \<open>\<^verbatim>\<open>result.get('score', 0)\<close>\<close>
  "result_score res = (if fst (score_entry res) = ''score'' then snd (score_entry res) else 0)"

definition auto_populate_body ::
    "(string \<times> strategy_fn) list \<Rightarrow> nat \<Rightarrow> string \<Rightarrow> staff_member list \<Rightarrow> date \<Rightarrow> date
       \<Rightarrow> int \<Rightarrow> string \<Rightarrow> db_session \<Rightarrow> (exn + populate_success) \<times> db_session" where
  \<comment> \<open>the \<^verbatim>\<open>try\<close> block of \<^verbatim>\<open>auto_populate\<close>\<close>
  "auto_populate_body strategies schedule_id strategy_name staff_list start_date end_date
       shifts_per_day ty db =
     (let cleared = clear_existing_shifts schedule_id start_date end_date db;
          db1 = snd cleared in
      case fst cleared of Inl e \<Rightarrow> (Inl e, db1)
      | Inr deleted_count \<Rightarrow>
        (case generate_shifts_for_period schedule_id start_date end_date shifts_per_day ty of
           Inl e \<Rightarrow> (Inl e, db1)
         | Inr shifts \<Rightarrow>
           (let generated =
                  client_generate_schedule strategies strategy_name staff_list shifts
                    start_date end_date;
                staff' = fst (snd generated); shifts' = snd (snd generated) in
            case fst generated of Inl e \<Rightarrow> (Inl e, db1)
            | Inr res \<Rightarrow>
              (let saved = save_shifts_to_db schedule_id staff' shifts' db1;
                   db2 = snd saved in
               case fst saved of Inl e \<Rightarrow> (Inl e, db2)
               | Inr created \<Rightarrow>
                 (case validate_schedule_results (summary res) (length staff_list) of
                    Inl e \<Rightarrow> (Inl e, db2)
                  | Inr u \<Rightarrow>
                    (Inr \<lparr>ps_schedule_id = schedule_id, shifts_created = created,
                          shifts_deleted = deleted_count, ps_score = result_score res,
                          ps_summary = summary res,
                          assignments = get_assignments_list staff' shifts',
                          strategy_used = strategy_name\<rparr>, db2))))))"

definition auto_populate ::
    "(string \<times> strategy_fn) list \<Rightarrow> nat \<Rightarrow> nat \<Rightarrow> string \<Rightarrow> staff_member list \<Rightarrow> date \<Rightarrow> date
       \<Rightarrow> int \<Rightarrow> string \<Rightarrow> db_session \<Rightarrow> outcome \<times> db_session" where
  "auto_populate strategies admin_id schedule_id strategy_name staff_list start_date end_date
       shifts_per_day ty db =
     (if staff_list = [] then (Raised (ValueError ''Staff list cannot be empty''), db)
      else if start_date > end_date then
        (Raised (ValueError ''Start date must be before end date''), db)
      else if shifts_per_day \<le> 0 then
        (Raised (ValueError ''Shifts per day must be positive''), db)
      else
        (let r = auto_populate_body strategies schedule_id strategy_name staff_list
                   start_date end_date shifts_per_day ty db in
         case fst r of
           Inr ok \<Rightarrow> (Returned (Success ok), snd r)
         | Inl e \<Rightarrow>
             (Returned (Failure (''Failed to auto-generate schedule: '' @ str_exn e)),
              session_rollback (snd r))))"

section \<open>The slicing rule of the catalog, as the specification words it\<close>

definition at_time :: "date \<Rightarrow> nat \<Rightarrow> nat \<Rightarrow> datetime" where
  "at_time d h m =
     \<lparr>dt_date = d, dt_hour = h, dt_minute = m, dt_second = 0, dt_microsecond = 0\<rparr>"

definition spec_slot :: "string \<Rightarrow> date \<Rightarrow> nat \<Rightarrow> datetime \<times> datetime" where
  \<comment> \<open>a day slot starts at hour 8 + shift_num and a night slot at hour 22 + shift_num, each
     ending eight hours later, the night slot on the next day; any other type gives
     08:00 to 16:00 for shift_num 0 and 16:00 to 23:59 otherwise\<close>
  "spec_slot ty d shift_num =
     (if ty = ''day'' then (at_time d (8 + shift_num) 0, at_time d (8 + shift_num + 8) 0)
      else if ty = ''night'' then
        (at_time d (22 + shift_num) 0, at_time (d + 1) (22 + shift_num + 8 - 24) 0)
      else if shift_num = 0 then (at_time d 8 0, at_time d 16 0)
      else (at_time d 16 0, at_time d 23 59))"

definition spec_catalog :: "date \<Rightarrow> date \<Rightarrow> int \<Rightarrow> string \<Rightarrow> shift list" where
  \<comment> \<open>one candidate shift for each day of the range and each shift_num below
     shifts_per_day, days in order and shift numbers in order within a day\<close>
  "spec_catalog start_date end_date shifts_per_day ty =
     concat (map (\<lambda>d. map (\<lambda>k. MockShift (fst (spec_slot ty d k)) (snd (spec_slot ty d k)) ty)
                          [0..<nat shifts_per_day])
               [start_date..end_date])"

section \<open>Stand-ins and example data\<close>

definition no_strategy :: strategy_fn where
  \<comment> \<open>stands for a strategy that is not among the sources, in examples that never reach it\<close>
  "no_strategy staff shifts start_date end_date =
     (Inl (OtherError ''strategy not available''), (staff, shifts))"

definition new_staff :: "nat \<Rightarrow> staff_member" where
  \<comment> \<open>a staff member with the given id and no assignment yet\<close>
  "new_staff i = \<lparr>staff_id = i, total_hours = 0, assigned_shifts = []\<rparr>"

definition new_session :: "shift_row list \<Rightarrow> db_session" where
  \<comment> \<open>a session over the given committed rows, nothing pending, all commits succeeding\<close>
  "new_session rows =
     \<lparr>stored = rows, pending_delete = [], pending_add = [], commit_raises = []\<rparr>"

section \<open>The invariant of the neutral pool\<close>

text \<open>
  The state of the two filling loops of DayNightDistributeStrategy is the roster together
  with \<^verbatim>\<open>neutral_staff\<close>. With \<open>G\<close> the group of every staff member: the pool holds
  no member twice, holds only neutral members without any assignment, and a neutral member
  outside the pool has at most one assignment.
\<close>

definition dn_neutral_inv :: "(nat \<Rightarrow> pref_lookup) \<Rightarrow> staff_group list \<Rightarrow> dn_state \<Rightarrow> bool" where
  "dn_neutral_inv gp G dst =
     (map (dn_staff_group gp) (fst (fst dst)) = G
      \<and> distinct (snd dst)
      \<and> (\<forall>p \<in> set (snd dst). p < length G \<and> G ! p = NeutralStaff
             \<and> assigned_shifts (fst (fst dst) ! p) = [])
      \<and> (\<forall>p < length G. G ! p = NeutralStaff \<and> p \<notin> set (snd dst)
             \<longrightarrow> length (assigned_shifts (fst (fst dst) ! p)) \<le> 1))"

section \<open>Balance validation: the three checks\<close>

text \<open>
  C5. Balance validation passes an empty summary without any check. On a summary that is
  not empty it fails exactly when max_hours - min_hours > 20, or total_shifts_assigned is
  below the staff count, or max_hours > average_hours_per_staff * 1.5. The checks run in
  this order and the first that fires gives the message: "too unbalanced", then "not
  enough shifts assigned", then "distribution too uneven".
\<close>

theorem validate_schedule_results_spec:
  "validate_schedule_results [] staff_count = Inr () \<and>
   (sm \<noteq> [] \<longrightarrow>
     ((\<exists>e. validate_schedule_results sm staff_count = Inl e) \<longleftrightarrow>
        (summary_get sm ''max_hours'' - summary_get sm ''min_hours'' > 20
         \<or> summary_get sm ''total_shifts_assigned'' < of_nat staff_count
         \<or> summary_get sm ''max_hours'' > summary_get sm ''average_hours_per_staff'' * (3 / 2)))
     \<and> (validate_schedule_results sm staff_count
          = Inl (ValueError ''Schedule too unbalanced - hour difference exceeds 20 hours'')
        \<longleftrightarrow> summary_get sm ''max_hours'' - summary_get sm ''min_hours'' > 20)
     \<and> (validate_schedule_results sm staff_count
          = Inl (ValueError ''Not enough shifts assigned - some staff may have no shifts'')
        \<longleftrightarrow> \<not> summary_get sm ''max_hours'' - summary_get sm ''min_hours'' > 20
            \<and> summary_get sm ''total_shifts_assigned'' < of_nat staff_count)
     \<and> (validate_schedule_results sm staff_count
          = Inl (ValueError ''Schedule distribution too uneven'')
        \<longleftrightarrow> \<not> summary_get sm ''max_hours'' - summary_get sm ''min_hours'' > 20
            \<and> \<not> summary_get sm ''total_shifts_assigned'' < of_nat staff_count
            \<and> summary_get sm ''max_hours'' > summary_get sm ''average_hours_per_staff'' * (3 / 2)))"
  by (simp add: validate_schedule_results_def)

text \<open>Scenario D: one staff member at 0 hours and another at 24 hours.\<close>

theorem validate_schedule_results_spec_witness:
  "[(''min_hours'', 0), (''max_hours'', 24 :: rat)] \<noteq> [] \<and>
   validate_schedule_results [(''min_hours'', 0), (''max_hours'', 24)] 2
     = Inl (ValueError ''Schedule too unbalanced - hour difference exceeds 20 hours'')"
  using validate_schedule_results_spec [of 2 "[(''min_hours'', 0), (''max_hours'', 24)]"]
  by (simp add: summary_get_def)

section \<open>Eligibility\<close>

text \<open>
  C7. In both strategies can_work_shift is false for a shift without a start time, false
  when the weekday of the shift is among the unavailable days of the staff member
  (whatever the skills), false when a required skill is missing from the skills of the
  staff member, and true otherwise. PreferenceBasedStrategy reads the pre-fetched
  preferences; DayNightDistributeStrategy looks the preferences up, a lookup that raises
  or finds nothing giving no unavailable day and no skill.
\<close>

theorem can_work_shift_spec:
  "pb_can_work_shift person sh preferences =
     (\<exists>t. start_time sh = Some t
        \<and> weekday (dt_date t) \<notin> set (unavailable_days (preferences_get preferences person))
        \<and> set (get_required_skills sh) \<subseteq> set (skills (preferences_get preferences person)))
   \<and> dn_can_work_shift gp p sh =
     (\<exists>t. start_time sh = Some t
        \<and> weekday (dt_date t)
            \<notin> set (case gp (staff_id p) of Found pr \<Rightarrow> unavailable_days pr | _ \<Rightarrow> [])
        \<and> set (get_required_skills sh)
            \<subseteq> set (case gp (staff_id p) of Found pr \<Rightarrow> skills pr | _ \<Rightarrow> []))"
  by (auto simp: pb_can_work_shift_def dn_can_work_shift_def list_all_iff Let_def
      split: option.splits pref_lookup.splits)

theorem can_work_shift_spec_witness:
  "\<not> pb_can_work_shift 0 (MockShift (at_time 738004 8 0) (at_time 738004 16 0) ''mixed'')
       (staff_preferences
          (\<lambda>i. Found \<lparr>preferred_shift_types = [], unavailable_days = [0],
                       max_hours_per_week = 40, skills = []\<rparr>) [new_staff 1])
   \<and> dn_can_work_shift (\<lambda>i. Missing) (new_staff 1)
       (MockShift (at_time 738004 8 0) (at_time 738004 16 0) ''mixed'')"
  using can_work_shift_spec [of 0 "MockShift (at_time 738004 8 0) (at_time 738004 16 0) ''mixed''"
      "staff_preferences
          (\<lambda>i. Found \<lparr>preferred_shift_types = [], unavailable_days = [0],
                       max_hours_per_week = 40, skills = []\<rparr>) [new_staff 1]"
      "\<lambda>i. Missing" "new_staff 1"]
  by (simp add: MockShift_def at_time_def staff_preferences_def preferences_get_def
      new_staff_def weekday_def get_required_skills_def)

section \<open>Night slots of the catalog\<close>

lemma shifts_of_day_error:
  "k \<in> set ks \<Longrightarrow> get_shift_times d k n ty = Inl e \<Longrightarrow> \<exists>e'. shifts_of_day d ks n ty = Inl e'"
  by (induction ks) (auto split: sum.splits)

lemma night_catalog_error:
  assumes "3 \<le> n" "start_date \<le> end_date"
  shows "\<exists>e. generate_shifts_from start_date end_date n ''night'' = Inl e"
proof -
  have "get_shift_times start_date 2 n ''night'' = Inl (ValueError ''hour must be in 0..23'')
      \<or> (\<exists>e. get_shift_times start_date 2 n ''night'' = Inl e)"
    by (simp add: get_shift_times_def replace_hour_def split: sum.splits)
  then obtain e where e: "get_shift_times start_date 2 n ''night'' = Inl e" by blast
  have "2 \<in> set [0..<nat n]" using assms(1) by simp
  from shifts_of_day_error [OF this e]
  obtain e' where "shifts_of_day start_date [0..<nat n] n ''night'' = Inl e'" by blast
  then show ?thesis using assms(2)
    by (subst generate_shifts_from.simps) simp
qed

text \<open>
  C10. The time computation is partial for night shifts: for shift_num of 2 or more the
  start hour 22 + shift_num is 24 or more, the call raises (ValueError for a date before
  the last one) and gives no start time wrapped past midnight; for shift_num 0 and 1 it
  gives 22:00 or 23:00 until 06:00 or 07:00 of the next day. So a night catalog with three
  or more shifts per day over a range that is not empty cannot be generated, and
  auto_populate returns a failure.
\<close>

theorem night_shift_times_partial:
  "(2 \<le> shift_num \<longrightarrow> (\<exists>e. get_shift_times d shift_num n ''night'' = Inl e))
   \<and> (2 \<le> shift_num \<and> 0 \<le> d \<and> d < MAXORDINAL \<longrightarrow>
        get_shift_times d shift_num n ''night'' = Inl (ValueError ''hour must be in 0..23''))
   \<and> (shift_num \<le> 1 \<and> 0 \<le> d \<and> d < MAXORDINAL \<longrightarrow>
        get_shift_times d shift_num n ''night''
          = Inr (at_time d (22 + shift_num) 0, at_time (d + 1) (6 + shift_num) 0))
   \<and> (3 \<le> n \<and> start_date \<le> end_date \<longrightarrow>
        (\<exists>e. generate_shifts_for_period schedule_id start_date end_date n ''night'' = Inl e))
   \<and> (3 \<le> n \<and> start_date \<le> end_date \<and> staff_list \<noteq> [] \<longrightarrow>
        (\<exists>m. fst (auto_populate strategies admin_id schedule_id strategy_name staff_list
                    start_date end_date n ''night'' db) = Returned (Failure m)))"
proof (intro conjI impI)
  assume "2 \<le> shift_num"
  then show "\<exists>e. get_shift_times d shift_num n ''night'' = Inl e"
    by (simp add: get_shift_times_def replace_hour_def Let_def split: sum.splits)
next
  assume "2 \<le> shift_num \<and> 0 \<le> d \<and> d < MAXORDINAL"
  then show "get_shift_times d shift_num n ''night'' = Inl (ValueError ''hour must be in 0..23'')"
    by (simp add: get_shift_times_def replace_hour_def date_add_days_def)
next
  assume a: "shift_num \<le> 1 \<and> 0 \<le> d \<and> d < MAXORDINAL"
  then have "shift_num = 0 \<or> shift_num = 1" by auto
  with a show "get_shift_times d shift_num n ''night''
          = Inr (at_time d (22 + shift_num) 0, at_time (d + 1) (6 + shift_num) 0)"
    by (auto simp: get_shift_times_def replace_hour_def date_add_days_def at_time_def
        combine_min_def)
next
  assume "3 \<le> n \<and> start_date \<le> end_date"
  then show "\<exists>e. generate_shifts_for_period schedule_id start_date end_date n ''night'' = Inl e"
    using night_catalog_error [of n start_date end_date]
    by (simp add: generate_shifts_for_period_def del: generate_shifts_from.simps)
next
  assume a: "3 \<le> n \<and> start_date \<le> end_date \<and> staff_list \<noteq> []"
  then obtain e where "generate_shifts_for_period schedule_id start_date end_date n ''night'' = Inl e"
    using night_catalog_error [of n start_date end_date]
    by (auto simp: generate_shifts_for_period_def simp del: generate_shifts_from.simps)
  then have "\<exists>e'. fst (auto_populate_body strategies schedule_id strategy_name staff_list
                    start_date end_date n ''night'' db) = Inl e'"
    by (simp add: auto_populate_body_def Let_def split: sum.splits)
  with a show "\<exists>m. fst (auto_populate strategies admin_id schedule_id strategy_name staff_list
                    start_date end_date n ''night'' db) = Returned (Failure m)"
    by (auto simp: auto_populate_def Let_def)
qed

theorem night_shift_times_partial_witness:
  "get_shift_times 738000 2 3 ''night'' = Inl (ValueError ''hour must be in 0..23'')
   \<and> get_shift_times 738000 1 3 ''night'' = Inr (at_time 738000 23 0, at_time 738001 7 0)
   \<and> (\<exists>e. generate_shifts_for_period 1 738000 738001 3 ''night'' = Inl e)
   \<and> (\<exists>m. fst (auto_populate (client_strategies (\<lambda>i. Missing) no_strategy no_strategy) 0 1
                  ''preference-based'' [new_staff 1] 738000 738001 3 ''night'' (new_session []))
            = Returned (Failure m))"
  using night_shift_times_partial [where shift_num = 2 and d = 738000 and n = 3
      and start_date = 738000 and end_date = 738001 and staff_list = "[new_staff 1]"
      and schedule_id = 1 and admin_id = 0 and strategy_name = "''preference-based''"
      and strategies = "client_strategies (\<lambda>i. Missing) no_strategy no_strategy"
      and db = "new_session []"]
    night_shift_times_partial [where shift_num = 1 and d = 738000 and n = 3
      and start_date = 738000 and end_date = 738001 and staff_list = "[new_staff 1]"
      and schedule_id = 1 and admin_id = 0 and strategy_name = "''preference-based''"
      and strategies = "client_strategies (\<lambda>i. Missing) no_strategy no_strategy"
      and db = "new_session []"]
  by (simp add: MAXORDINAL_def)

section \<open>The catalog follows the slicing rule\<close>

lemma get_shift_times_slot:
  assumes "ty = ''day'' \<longrightarrow> k < 8" "ty = ''night'' \<longrightarrow> k < 2 \<and> 0 \<le> d \<and> d < MAXORDINAL"
  shows "get_shift_times d k n ty = Inr (spec_slot ty d k)"
proof -
  consider "ty = ''day''" | "ty = ''night''" | "ty \<noteq> ''day''" "ty \<noteq> ''night''" by blast
  then show ?thesis
  proof cases
    case 1
    with assms show ?thesis
      by (simp add: get_shift_times_def spec_slot_def replace_hour_def at_time_def
          combine_min_def Let_def)
  next
    case 2
    with assms have "k = 0 \<or> k = 1" by auto
    with 2 assms show ?thesis
      by (auto simp: get_shift_times_def spec_slot_def replace_hour_def at_time_def
          combine_min_def Let_def date_add_days_def)
  next
    case 3
    then show ?thesis
      by (simp add: get_shift_times_def spec_slot_def replace_hour_def at_time_def
          combine_min_def Let_def replace_hour_minute_def)
  qed
qed

lemma shifts_of_day_slots:
  "\<forall>k \<in> set ks. get_shift_times d k n ty = Inr (spec_slot ty d k) \<Longrightarrow>
   shifts_of_day d ks n ty
     = Inr (map (\<lambda>k. MockShift (fst (spec_slot ty d k)) (snd (spec_slot ty d k)) ty) ks)"
  by (induction ks) (auto split: prod.splits)

lemma generate_shifts_from_spec:
  assumes "ty = ''day'' \<longrightarrow> n \<le> 8" "ty = ''night'' \<longrightarrow> n \<le> 2 \<and> 0 \<le> start_date"
    "end_date < MAXORDINAL"
  shows "generate_shifts_from start_date end_date n ty = Inr (spec_catalog start_date end_date n ty)"
  using assms
proof (induction start_date end_date n ty rule: generate_shifts_from.induct)
  case (1 c e n ty)
  show ?case
  proof (cases "c \<le> e")
    case False
    then show ?thesis
      by (subst generate_shifts_from.simps) (simp add: spec_catalog_def)
  next
    case True
    have "\<forall>k \<in> set [0..<nat n]. get_shift_times c k n ty = Inr (spec_slot ty c k)"
    proof
      fix k assume "k \<in> set [0..<nat n]"
      then have "k < nat n" by simp
      with 1(2,3,4) True show "get_shift_times c k n ty = Inr (spec_slot ty c k)"
        by (intro get_shift_times_slot) auto
    qed
    then have day: "shifts_of_day c [0..<nat n] n ty
        = Inr (map (\<lambda>k. MockShift (fst (spec_slot ty c k)) (snd (spec_slot ty c k)) ty) [0..<nat n])"
      by (rule shifts_of_day_slots)
    have nxt: "c + 1 \<le> MAXORDINAL" using True 1(4) by simp
    have "generate_shifts_from (c + 1) e n ty = Inr (spec_catalog (c + 1) e n ty)"
      using 1(1) [OF True day nxt] 1(2,3,4) True by auto
    with day nxt True show ?thesis
      by (subst generate_shifts_from.simps) (simp add: spec_catalog_def upto_rec1 [of c e])
  qed
qed

text \<open>
  C6, as amended. For shift type "day" with at most 8 shifts per day, for "night" with at
  most 2, and for any other type with any number, over a range that ends before the last
  date, the catalog holds exactly one candidate shift for each day of the range and each
  shift_num below shifts_per_day, in this order, with the times of the slicing rule; day
  and night slots last eight hours. A one-day "mixed" range with two shifts per day gives
  exactly 08:00 to 16:00 and 16:00 to 23:59.
\<close>

theorem generate_shifts_for_period_spec:
  "((ty = ''day'' \<longrightarrow> n \<le> 8) \<and> (ty = ''night'' \<longrightarrow> n \<le> 2 \<and> 0 \<le> start_date)
      \<and> end_date < MAXORDINAL \<longrightarrow>
      generate_shifts_for_period schedule_id start_date end_date n ty
        = Inr (spec_catalog start_date end_date n ty))
   \<and> (ty = ''day'' \<or> ty = ''night'' \<longrightarrow>
        hours_between (fst (spec_slot ty d k)) (snd (spec_slot ty d k)) = 8)
   \<and> (d < MAXORDINAL \<longrightarrow>
        generate_shifts_for_period schedule_id d d 2 ''mixed''
          = Inr [MockShift (at_time d 8 0) (at_time d 16 0) ''mixed'',
                 MockShift (at_time d 16 0) (at_time d 23 59) ''mixed''])"
proof (intro conjI impI)
  assume "(ty = ''day'' \<longrightarrow> n \<le> 8) \<and> (ty = ''night'' \<longrightarrow> n \<le> 2 \<and> 0 \<le> start_date)
      \<and> end_date < MAXORDINAL"
  then show "generate_shifts_for_period schedule_id start_date end_date n ty
        = Inr (spec_catalog start_date end_date n ty)"
    by (simp add: generate_shifts_for_period_def generate_shifts_from_spec)
next
  assume "ty = ''day'' \<or> ty = ''night''"
  then show "hours_between (fst (spec_slot ty d k)) (snd (spec_slot ty d k)) = 8"
    by (auto simp: spec_slot_def hours_between_def dt_micros_def at_time_def)
next
  assume "d < MAXORDINAL"
  then have "generate_shifts_from d d 2 ''mixed'' = Inr (spec_catalog d d 2 ''mixed'')"
    by (intro generate_shifts_from_spec) auto
  moreover have "[0..<nat 2] = [0, 1]" by (simp add: upt_rec)
  ultimately show "generate_shifts_for_period schedule_id d d 2 ''mixed''
          = Inr [MockShift (at_time d 8 0) (at_time d 16 0) ''mixed'',
                 MockShift (at_time d 16 0) (at_time d 23 59) ''mixed'']"
    by (simp add: generate_shifts_for_period_def spec_catalog_def spec_slot_def)
qed

theorem generate_shifts_for_period_spec_witness:
  "generate_shifts_for_period 1 738000 738001 2 ''night''
     = Inr (spec_catalog 738000 738001 2 ''night'')
   \<and> generate_shifts_for_period 1 738000 738001 8 ''day''
     = Inr (spec_catalog 738000 738001 8 ''day'')
   \<and> hours_between (fst (spec_slot ''night'' 738000 1)) (snd (spec_slot ''night'' 738000 1)) = 8
   \<and> generate_shifts_for_period 1 738000 738000 2 ''mixed''
          = Inr [MockShift (at_time 738000 8 0) (at_time 738000 16 0) ''mixed'',
                 MockShift (at_time 738000 16 0) (at_time 738000 23 59) ''mixed'']"
  using generate_shifts_for_period_spec [where ty = "''night''" and n = 2
      and start_date = 738000 and end_date = 738001 and schedule_id = 1 and d = 738000 and k = 1]
    generate_shifts_for_period_spec [where ty = "''day''" and n = 8
      and start_date = 738000 and end_date = 738001 and schedule_id = 1 and d = 738000 and k = 1]
  by (simp add: MAXORDINAL_def)

text \<open>
  C6 as stated fails: with nine day shifts per day the ninth slot would end at hour 24,
  and with three night shifts per day the third would start at hour 24; the catalog is
  not produced.
\<close>

theorem catalog_every_shift_num_counterexample:
  "generate_shifts_for_period 1 738000 738000 9 ''day'' = Inl (ValueError ''hour must be in 0..23'')
   \<and> generate_shifts_for_period 1 738000 738000 3 ''night''
       = Inl (ValueError ''hour must be in 0..23'')"
  by (simp add: generate_shifts_for_period_def) code_simp

section \<open>The hour cap\<close>

lemma dn_assign_if_available_within_cap:
  "fst (dn_assign_if_available gp person si st) \<Longrightarrow> person < length (fst st) \<Longrightarrow>
   total_hours (fst (snd (dn_assign_if_available gp person si st)) ! person)
     \<le> dn_max_hours gp (fst st ! person)"
  by (auto simp: dn_assign_if_available_def dn_assign_shift_def Let_def split: if_splits)

text \<open>
  C1. The claim is that after a strategy run no staff member has total_hours strictly above
  max_hours_per_week. DayNightDistributeStrategy compares the hours after the assignment
  with the cap, as the lemma above records. PreferenceBasedStrategy compares the hours
  before the assignment with the cap and then adds the whole shift: a staff member capped
  at 10 hours is given two 8-hour shifts and ends at 16 hours, and a staff member under
  the default cap of 40 hours is given all six shifts of a three-day "mixed" catalog and
  ends at 47.95 hours.
\<close>

theorem pb_total_hours_exceed_cap:
  "map total_hours (fst (snd (pb_generate_schedule
        (\<lambda>i. Found \<lparr>preferred_shift_types = [], unavailable_days = [],
                     max_hours_per_week = 10, skills = []\<rparr>)
        [new_staff 1]
        [MockShift (at_time 738000 8 0) (at_time 738000 16 0) ''day'',
         MockShift (at_time 738000 9 0) (at_time 738000 17 0) ''day''] 738000 738000)))
      = [16]
   \<and> (case generate_shifts_for_period 1 738000 738002 2 ''mixed'' of
         Inl e \<Rightarrow> []
       | Inr shifts \<Rightarrow>
           map total_hours (fst (snd (pb_generate_schedule (\<lambda>i. Missing) [new_staff 1] shifts
                                       738000 738002))))
      = [959 / 20]"
  by code_simp

section \<open>Day and night buckets\<close>

text \<open>
  C2. The claim is that every shift starting between 06h and 18h goes to the day bucket
  and is filled in the first pass. The shift type of a shift starting at 08:00 is "day",
  the bucket test accepts "morning" and "evening" only, so the shift lands in the night
  bucket: with one staff member preferring mornings and one preferring nights, the 08:00
  shift goes to the one preferring nights.
\<close>

theorem dn_morning_shift_in_night_bucket:
  "dn_get_shift_type (MockShift (at_time 738000 8 0) (at_time 738000 16 0) ''day'') = ''day''
   \<and> dn_day_shifts [MockShift (at_time 738000 8 0) (at_time 738000 16 0) ''day''] = []
   \<and> dn_night_shifts [MockShift (at_time 738000 8 0) (at_time 738000 16 0) ''day''] = [0]
   \<and> map assigned_staff (snd (snd (dn_generate_schedule
        (\<lambda>i. Found \<lparr>preferred_shift_types = (if i = 1 then [''morning''] else [''night'']),
                     unavailable_days = [], max_hours_per_week = 40, skills = []\<rparr>)
        [new_staff 1, new_staff 2]
        [MockShift (at_time 738000 8 0) (at_time 738000 16 0) ''day''] 738000 738000)))
      = [[1]]"
  by code_simp

section \<open>Unknown strategy names\<close>

lemma scheduler_unknown_strategy_lists_names:
  "map_of strategies strategy_name = None \<Longrightarrow>
   scheduler_generate_schedule strategies strategy_name staff shifts start_date end_date
     = (Inl (ValueError (''Unknown strategy: '' @ strategy_name @ ''. Available strategies: ''
               @ repr_str_list (get_available_strategies strategies))), (staff, shifts))"
  by (simp add: scheduler_generate_schedule_def get_available_strategies_def)

lemma scheduler_registered_names:
  "repr_str_list (get_available_strategies (scheduler_strategies gp s1 s2 s3))
     = ''['' @ [CHR 0x27] @ ''even_distribute'' @ [CHR 0x27] @ '', ''
        @ [CHR 0x27] @ ''minimize_days'' @ [CHR 0x27] @ '', ''
        @ [CHR 0x27] @ ''shift_type_optimize'' @ [CHR 0x27] @ '', ''
        @ [CHR 0x27] @ ''preference_based'' @ [CHR 0x27] @ '', ''
        @ [CHR 0x27] @ ''day_night_distribute'' @ [CHR 0x27] @ '']''"
  by (simp add: repr_str_list_def get_available_strategies_def scheduler_strategies_def)

lemma client_unknown:
  "map_of strategies strategy_name = None \<Longrightarrow>
   client_generate_schedule strategies strategy_name staff shifts start_date end_date
     = (Inl (ValueError (''Unknown strategy: '' @ strategy_name)), (staff, shifts))"
  by (simp add: client_generate_schedule_def)

text \<open>
  C4. The claim is that on both registries an unregistered name fails with a message that
  lists the registered names, and that nothing is mutated. The Scheduler does so, as the
  lemmas above record. The ScheduleClient leaves staff and shifts as they are, but its
  message is the name alone, without the list.
\<close>

theorem client_unknown_strategy_message:
  "client_generate_schedule (client_strategies gp even_distribute minimize_days)
       ''no-such-strategy'' staff shifts start_date end_date
     = (Inl (ValueError ''Unknown strategy: no-such-strategy''), (staff, shifts))"
  by (simp add: client_generate_schedule_def client_strategies_def)

section \<open>Failures of auto_populate\<close>

lemma session_commit_ok:
  "fst (session_commit db) = Inr u \<Longrightarrow>
   (commit_raises db = [] \<or> (\<exists>rest. commit_raises db = False # rest))
   \<and> commit_raises (snd (session_commit db)) = tl (commit_raises db)"
  by (auto simp: session_commit_def split: list.splits bool.splits)

lemma clear_existing_shifts_ok:
  assumes "fst (clear_existing_shifts schedule_id start_date end_date db) = Inr k"
  shows "(commit_raises db = [] \<or> (\<exists>rest. commit_raises db = False # rest))
   \<and> commit_raises (snd (clear_existing_shifts schedule_id start_date end_date db))
       = tl (commit_raises db)"
proof -
  let ?db = "db\<lparr>pending_delete := pending_delete db
       @ filter (\<lambda>i. in_window schedule_id start_date end_date (stored db ! i))
                   [0..<length (stored db)]\<rparr>"
  from assms have "fst (session_commit ?db) = Inr ()"
    by (auto simp: clear_existing_shifts_def Let_def split: sum.splits)
  from session_commit_ok [OF this] show ?thesis
    by (auto simp: clear_existing_shifts_def Let_def split: sum.splits)
qed

lemma save_shifts_to_db_ok:
  assumes "fst (save_shifts_to_db schedule_id staff shifts db) = Inr k"
  shows "commit_raises db = [] \<or> (\<exists>rest. commit_raises db = False # rest)"
proof -
  let ?db = "db\<lparr>pending_add := pending_add db @ rows_of_shifts schedule_id staff shifts\<rparr>"
  from assms have "fst (session_commit ?db) = Inr ()"
    by (auto simp: save_shifts_to_db_def Let_def split: sum.splits)
  from session_commit_ok [OF this] show ?thesis by simp
qed

lemma auto_populate_body_ok:
  assumes "fst (auto_populate_body strategies schedule_id strategy_name staff_list
              start_date end_date n ty db) = Inr ok"
  shows "True \<notin> set (take 2 (commit_raises db))
     \<and> (\<exists>strat shifts res st.
           map_of strategies strategy_name = Some strat
           \<and> generate_shifts_for_period schedule_id start_date end_date n ty = Inr shifts
           \<and> strat staff_list shifts start_date end_date = (Inr res, st)
           \<and> validate_schedule_results (summary res) (length staff_list) = Inr ())"
proof -
  let ?c = "clear_existing_shifts schedule_id start_date end_date db"
  from assms obtain k where c: "fst ?c = Inr k"
    by (auto simp: auto_populate_body_def Let_def split: sum.splits)
  from assms c obtain shifts where
    g: "generate_shifts_for_period schedule_id start_date end_date n ty = Inr shifts"
    by (auto simp: auto_populate_body_def Let_def split: sum.splits)
  let ?r = "client_generate_schedule strategies strategy_name staff_list shifts start_date end_date"
  from assms c g obtain res where r: "fst ?r = Inr res"
    by (auto simp: auto_populate_body_def Let_def split: sum.splits)
  then obtain strat where s: "map_of strategies strategy_name = Some strat"
    by (auto simp: client_generate_schedule_def split: option.splits)
  with r have run: "strat staff_list shifts start_date end_date = (Inr res, snd ?r)"
    by (auto simp: client_generate_schedule_def prod_eq_iff)
  let ?s = "save_shifts_to_db schedule_id (fst (snd ?r)) (snd (snd ?r)) (snd ?c)"
  from assms c g r obtain k' where sv: "fst ?s = Inr k'"
    by (auto simp: auto_populate_body_def Let_def split: sum.splits)
  from assms c g r sv have v: "validate_schedule_results (summary res) (length staff_list) = Inr ()"
    by (auto simp: auto_populate_body_def Let_def split: sum.splits)
  from clear_existing_shifts_ok [OF c] save_shifts_to_db_ok [OF sv]
  have "True \<notin> set (take 2 (commit_raises db))"
    by (cases "commit_raises db") (auto simp: take_Suc_conv_app_nth numeral_2_eq_2 split: list.splits)
  with s g run v show ?thesis by blast
qed

text \<open>
  C3, as amended. A run with an empty staff list, an inverted date range or a shift count
  that is not positive raises ValueError to its caller before the database is touched.
  Every other run returns an outcome and never raises. A failure outcome carries the
  message "Failed to auto-generate schedule: " followed by the text of the exception, and
  the session has been rolled back: nothing is left pending. A success outcome is returned
  only when neither commit raised, the strategy name is registered, the catalog was
  generated, the strategy returned a result and the balance validation passed; so an
  unknown strategy, a catalog or strategy error, a persistence error and a
  balance-validation failure each end in a failure outcome.
\<close>

theorem auto_populate_failure_outcome:
  "(staff_list = [] \<or> end_date < start_date \<or> n \<le> 0 \<longrightarrow>
      (\<exists>m. auto_populate strategies admin_id schedule_id strategy_name staff_list
              start_date end_date n ty db = (Raised (ValueError m), db)))
   \<and> (staff_list \<noteq> [] \<and> start_date \<le> end_date \<and> 0 < n \<longrightarrow>
      (\<exists>resp db'. auto_populate strategies admin_id schedule_id strategy_name staff_list
              start_date end_date n ty db = (Returned resp, db')
         \<and> (\<forall>m. resp = Failure m \<longrightarrow>
               (\<exists>e. m = ''Failed to auto-generate schedule: '' @ str_exn e)
               \<and> pending_delete db' = [] \<and> pending_add db' = [])
         \<and> (\<forall>ok. resp = Success ok \<longrightarrow>
               True \<notin> set (take 2 (commit_raises db))
               \<and> (\<exists>strat shifts res st.
                     map_of strategies strategy_name = Some strat
                     \<and> generate_shifts_for_period schedule_id start_date end_date n ty = Inr shifts
                     \<and> strat staff_list shifts start_date end_date = (Inr res, st)
                     \<and> validate_schedule_results (summary res) (length staff_list) = Inr ()))))"
proof (intro conjI impI)
  assume "staff_list = [] \<or> end_date < start_date \<or> n \<le> 0"
  then show "\<exists>m. auto_populate strategies admin_id schedule_id strategy_name staff_list
              start_date end_date n ty db = (Raised (ValueError m), db)"
    by (auto simp: auto_populate_def)
next
  assume valid: "staff_list \<noteq> [] \<and> start_date \<le> end_date \<and> 0 < n"
  let ?b = "auto_populate_body strategies schedule_id strategy_name staff_list
              start_date end_date n ty db"
  show "\<exists>resp db'. auto_populate strategies admin_id schedule_id strategy_name staff_list
              start_date end_date n ty db = (Returned resp, db')
         \<and> (\<forall>m. resp = Failure m \<longrightarrow>
               (\<exists>e. m = ''Failed to auto-generate schedule: '' @ str_exn e)
               \<and> pending_delete db' = [] \<and> pending_add db' = [])
         \<and> (\<forall>ok. resp = Success ok \<longrightarrow>
               True \<notin> set (take 2 (commit_raises db))
               \<and> (\<exists>strat shifts res st.
                     map_of strategies strategy_name = Some strat
                     \<and> generate_shifts_for_period schedule_id start_date end_date n ty = Inr shifts
                     \<and> strat staff_list shifts start_date end_date = (Inr res, st)
                     \<and> validate_schedule_results (summary res) (length staff_list) = Inr ()))"
  proof (cases "fst ?b")
    case (Inl e)
    with valid have "auto_populate strategies admin_id schedule_id strategy_name staff_list
              start_date end_date n ty db
        = (Returned (Failure (''Failed to auto-generate schedule: '' @ str_exn e)),
           session_rollback (snd ?b))"
      by (simp add: auto_populate_def)
    then show ?thesis
      by (auto simp: session_rollback_def)
  next
    case (Inr ok)
    with valid have "auto_populate strategies admin_id schedule_id strategy_name staff_list
              start_date end_date n ty db = (Returned (Success ok), snd ?b)"
      by (simp add: auto_populate_def)
    with auto_populate_body_ok [OF Inr] show ?thesis
      by auto
  qed
qed

theorem auto_populate_failure_outcome_witness:
  "(\<exists>m. auto_populate (client_strategies (\<lambda>i. Missing) no_strategy no_strategy) 0 1
            ''preference-based'' [] 738000 738000 2 ''mixed'' (new_session [])
          = (Raised (ValueError m), new_session []))
   \<and> (\<exists>e db'. auto_populate (client_strategies (\<lambda>i. Missing) no_strategy no_strategy) 0 1
            ''even-distribute'' [new_staff 1] 738000 738000 2 ''mixed'' (new_session [])
          = (Returned (Failure (''Failed to auto-generate schedule: '' @ str_exn e)), db')
        \<and> pending_delete db' = [] \<and> pending_add db' = [])"
proof -
  let ?regs = "client_strategies (\<lambda>i. Missing) no_strategy no_strategy"
  have reg: "map_of ?regs ''even-distribute'' = Some no_strategy"
    by (simp add: client_strategies_def)
  note a = auto_populate_failure_outcome [where staff_list = "[]" and start_date = 738000
      and end_date = 738000 and n = 2 and admin_id = 0 and schedule_id = 1
      and strategies = ?regs
      and strategy_name = "''preference-based''" and ty = "''mixed''" and db = "new_session []"]
  note b = auto_populate_failure_outcome [where staff_list = "[new_staff 1]" and start_date = 738000
      and end_date = 738000 and n = 2 and admin_id = 0 and schedule_id = 1
      and strategies = ?regs
      and strategy_name = "''even-distribute''" and ty = "''mixed''" and db = "new_session []"]
  have valid: "[new_staff 1] \<noteq> [] \<and> (738000::int) \<le> 738000 \<and> (0::int) < 2" by simp
  from b [THEN conjunct2, rule_format, OF valid]
  obtain resp db' where r: "auto_populate ?regs 0 1 ''even-distribute'' [new_staff 1]
        738000 738000 2 ''mixed'' (new_session []) = (Returned resp, db')"
    and f: "\<forall>m. resp = Failure m \<longrightarrow>
               (\<exists>e. m = ''Failed to auto-generate schedule: '' @ str_exn e)
               \<and> pending_delete db' = [] \<and> pending_add db' = []"
    and s: "\<forall>ok. resp = Success ok \<longrightarrow>
               True \<notin> set (take 2 (commit_raises (new_session [])))
               \<and> (\<exists>strat shifts res st.
                     map_of ?regs ''even-distribute'' = Some strat
                     \<and> generate_shifts_for_period 1 738000 738000 2 ''mixed'' = Inr shifts
                     \<and> strat [new_staff 1] shifts 738000 738000 = (Inr res, st)
                     \<and> validate_schedule_results (summary res) (length [new_staff 1]) = Inr ())"
    by blast
  from s reg have "\<forall>ok. resp \<noteq> Success ok"
    by (auto simp: no_strategy_def)
  then obtain m where "resp = Failure m" by (cases resp) auto
  with r f have "\<exists>e db'. auto_populate ?regs 0 1 ''even-distribute'' [new_staff 1]
        738000 738000 2 ''mixed'' (new_session [])
          = (Returned (Failure (''Failed to auto-generate schedule: '' @ str_exn e)), db')
        \<and> pending_delete db' = [] \<and> pending_add db' = []"
    by auto
  with a show ?thesis by simp
qed

text \<open>
  C3 as stated fails twice. An empty staff list raises ValueError to the caller instead of
  returning a failure outcome. And a failure after the clearing step does not restore the
  table: the deletions were committed by the clearing step, so after a run with an
  unregistered strategy name the row that was stored is gone.
\<close>

theorem auto_populate_failure_counterexample:
  "auto_populate (client_strategies (\<lambda>i. Missing) no_strategy no_strategy) 0 1
       ''preference-based'' [] 738000 738000 2 ''mixed''
       (new_session [\<lparr>row_schedule_id = 1, row_staff_id = 1,
                       row_start_time = Some (at_time 738000 8 0),
                       row_end_time = Some (at_time 738000 16 0)\<rparr>])
     = (Raised (ValueError ''Staff list cannot be empty''),
        new_session [\<lparr>row_schedule_id = 1, row_staff_id = 1,
                       row_start_time = Some (at_time 738000 8 0),
                       row_end_time = Some (at_time 738000 16 0)\<rparr>])
   \<and> auto_populate (client_strategies (\<lambda>i. Missing) no_strategy no_strategy) 0 1
       ''no-such-strategy'' [new_staff 1] 738000 738000 2 ''mixed''
       (new_session [\<lparr>row_schedule_id = 1, row_staff_id = 1,
                       row_start_time = Some (at_time 738000 8 0),
                       row_end_time = Some (at_time 738000 16 0)\<rparr>])
     = (Returned (Failure ''Failed to auto-generate schedule: Unknown strategy: no-such-strategy''),
        new_session [])"
proof -
  have cleared: "clear_existing_shifts 1 738000 738000
       (new_session [\<lparr>row_schedule_id = 1, row_staff_id = 1,
                       row_start_time = Some (at_time 738000 8 0),
                       row_end_time = Some (at_time 738000 16 0)\<rparr>])
     = (Inr 1, new_session [])"
    by (simp add: clear_existing_shifts_def new_session_def session_commit_def in_window_def
      at_time_def dt_micros_def combine_min_def combine_max_def)
  have catalog: "generate_shifts_for_period 1 738000 738000 2 ''mixed''
      = Inr (spec_catalog 738000 738000 2 ''mixed'')"
    by (simp add: generate_shifts_for_period_def generate_shifts_from_spec MAXORDINAL_def)
  have unknown: "map_of (client_strategies (\<lambda>i. Missing) no_strategy no_strategy)
      ''no-such-strategy'' = None"
    by (simp add: client_strategies_def)
  have first: "auto_populate (client_strategies (\<lambda>i. Missing) no_strategy no_strategy) 0 1
       ''preference-based'' [] 738000 738000 2 ''mixed''
       (new_session [\<lparr>row_schedule_id = 1, row_staff_id = 1,
                       row_start_time = Some (at_time 738000 8 0),
                       row_end_time = Some (at_time 738000 16 0)\<rparr>])
     = (Raised (ValueError ''Staff list cannot be empty''),
        new_session [\<lparr>row_schedule_id = 1, row_staff_id = 1,
                       row_start_time = Some (at_time 738000 8 0),
                       row_end_time = Some (at_time 738000 16 0)\<rparr>])"
    by (simp add: auto_populate_def)
  have body: "auto_populate_body (client_strategies (\<lambda>i. Missing) no_strategy no_strategy) 1
       ''no-such-strategy'' [new_staff 1] 738000 738000 2 ''mixed''
       (new_session [\<lparr>row_schedule_id = 1, row_staff_id = 1,
                       row_start_time = Some (at_time 738000 8 0),
                       row_end_time = Some (at_time 738000 16 0)\<rparr>])
     = (Inl (ValueError ''Unknown strategy: no-such-strategy''), new_session [])"
    unfolding auto_populate_body_def cleared catalog client_unknown [OF unknown]
    by simp
  have second: "auto_populate (client_strategies (\<lambda>i. Missing) no_strategy no_strategy) 0 1
       ''no-such-strategy'' [new_staff 1] 738000 738000 2 ''mixed''
       (new_session [\<lparr>row_schedule_id = 1, row_staff_id = 1,
                       row_start_time = Some (at_time 738000 8 0),
                       row_end_time = Some (at_time 738000 16 0)\<rparr>])
     = (Returned (Failure ''Failed to auto-generate schedule: Unknown strategy: no-such-strategy''),
        new_session [])"
    unfolding auto_populate_def body
    by (simp add: session_rollback_def new_session_def)
  from first second show ?thesis by (rule conjI)
qed

section \<open>Running a strategy again\<close>

lemma map_update_same: "f x = f (xs ! i) \<Longrightarrow> map f (xs[i := x]) = map f xs"
  by (metis list_update_id map_update)

lemma reset_pb_assign_shift:
  "reset_assignments (fst (pb_assign_shift person si st)) (snd (pb_assign_shift person si st))
     = reset_assignments (fst st) (snd st)"
  by (simp add: pb_assign_shift_def reset_assignments_def Let_def map_update_same)

lemma reset_dn_assign_shift:
  "reset_assignments (fst (dn_assign_shift person si st)) (snd (dn_assign_shift person si st))
     = reset_assignments (fst st) (snd st)"
  by (simp add: dn_assign_shift_def reset_assignments_def Let_def map_update_same)

lemma reset_pb_assign_all:
  "reset_assignments
       (fst (foldl (\<lambda>st' (person, score, hours). pb_assign_shift person si st') st cs))
       (snd (foldl (\<lambda>st' (person, score, hours). pb_assign_shift person si st') st cs))
     = reset_assignments (fst st) (snd st)"
  by (induction cs arbitrary: st) (auto simp: reset_pb_assign_shift)

lemma reset_pb_fill_shift:
  "reset_assignments (fst (pb_fill_shift preferences st si)) (snd (pb_fill_shift preferences st si))
     = reset_assignments (fst st) (snd st)"
  by (simp add: pb_fill_shift_def Let_def reset_pb_assign_all)

lemma reset_pb_fill_all:
  "reset_assignments (fst (foldl (pb_fill_shift preferences) st sis))
       (snd (foldl (pb_fill_shift preferences) st sis))
     = reset_assignments (fst st) (snd st)"
  by (induction sis arbitrary: st) (simp_all add: reset_pb_fill_shift)

lemma reset_reset:
  "reset_assignments (fst (reset_assignments staff shifts)) (snd (reset_assignments staff shifts))
     = reset_assignments staff shifts"
  by (simp add: reset_assignments_def)

lemma reset_dn_try_person:
  "reset_assignments (fst (fst (dn_try_person gp si dst person)))
       (snd (fst (dn_try_person gp si dst person)))
     = reset_assignments (fst (fst dst)) (snd (fst dst))"
  by (simp add: dn_try_person_def dn_assign_if_available_def Let_def reset_dn_assign_shift)

lemma reset_dn_try_all:
  "reset_assignments (fst (fst (foldl (dn_try_person gp si) dst cs)))
       (snd (fst (foldl (dn_try_person gp si) dst cs)))
     = reset_assignments (fst (fst dst)) (snd (fst dst))"
  by (induction cs arbitrary: dst) (simp_all add: reset_dn_try_person)

lemma reset_dn_fill_shift:
  "reset_assignments (fst (fst (dn_fill_shift gp preferring dst si)))
       (snd (fst (dn_fill_shift gp preferring dst si)))
     = reset_assignments (fst (fst dst)) (snd (fst dst))"
  by (simp add: dn_fill_shift_def Let_def reset_dn_try_all)

lemma reset_dn_fill_all:
  "reset_assignments (fst (fst (foldl (dn_fill_shift gp preferring) dst sis)))
       (snd (fst (foldl (dn_fill_shift gp preferring) dst sis)))
     = reset_assignments (fst (fst dst)) (snd (fst dst))"
  by (induction sis arbitrary: dst) (simp_all add: reset_dn_fill_shift)

lemma pb_generate_schedule_reset_cong:
  "reset_assignments staff' shifts' = reset_assignments staff shifts \<Longrightarrow>
   pb_generate_schedule gp staff' shifts' start_date end_date
     = pb_generate_schedule gp staff shifts start_date end_date"
  by (simp add: pb_generate_schedule_def)

lemma dn_generate_schedule_reset_cong:
  "reset_assignments staff' shifts' = reset_assignments staff shifts \<Longrightarrow>
   dn_generate_schedule gp staff' shifts' start_date end_date
     = dn_generate_schedule gp staff shifts start_date end_date"
  by (simp add: dn_generate_schedule_def)

lemma reset_after_pb:
  "reset_assignments (fst (snd (pb_generate_schedule gp staff shifts start_date end_date)))
       (snd (snd (pb_generate_schedule gp staff shifts start_date end_date)))
     = reset_assignments staff shifts"
  by (simp add: pb_generate_schedule_def Let_def reset_pb_fill_all reset_reset)

lemma reset_after_dn:
  "reset_assignments (fst (snd (dn_generate_schedule gp staff shifts start_date end_date)))
       (snd (snd (dn_generate_schedule gp staff shifts start_date end_date)))
     = reset_assignments staff shifts"
  by (simp add: dn_generate_schedule_def Let_def reset_dn_fill_all reset_reset)

text \<open>
  C8. Running PreferenceBasedStrategy or DayNightDistributeStrategy a second time on the
  staff and shifts that the first run has mutated, with the same preference lookup, gives
  the same ScheduleResult and leaves staff and shifts as the first run left them: a run
  changes nothing but total_hours, assigned_shifts and assigned_staff, and each run starts
  by resetting these.
\<close>

theorem generate_schedule_idempotent:
  "pb_generate_schedule gp
       (fst (snd (pb_generate_schedule gp staff shifts start_date end_date)))
       (snd (snd (pb_generate_schedule gp staff shifts start_date end_date)))
       start_date end_date
     = pb_generate_schedule gp staff shifts start_date end_date
   \<and> dn_generate_schedule gp
       (fst (snd (dn_generate_schedule gp staff shifts start_date end_date)))
       (snd (snd (dn_generate_schedule gp staff shifts start_date end_date)))
       start_date end_date
     = dn_generate_schedule gp staff shifts start_date end_date"
  using pb_generate_schedule_reset_cong [OF reset_after_pb]
    dn_generate_schedule_reset_cong [OF reset_after_dn]
  by blast

theorem generate_schedule_idempotent_witness:
  "fst (pb_generate_schedule (\<lambda>i. Missing)
       (fst (snd (pb_generate_schedule (\<lambda>i. Missing) [new_staff 1, new_staff 2]
          [MockShift (at_time 738000 8 0) (at_time 738000 16 0) ''mixed'',
           MockShift (at_time 738000 16 0) (at_time 738000 23 59) ''mixed''] 738000 738000)))
       (snd (snd (pb_generate_schedule (\<lambda>i. Missing) [new_staff 1, new_staff 2]
          [MockShift (at_time 738000 8 0) (at_time 738000 16 0) ''mixed'',
           MockShift (at_time 738000 16 0) (at_time 738000 23 59) ''mixed''] 738000 738000)))
       738000 738000)
     = fst (pb_generate_schedule (\<lambda>i. Missing) [new_staff 1, new_staff 2]
          [MockShift (at_time 738000 8 0) (at_time 738000 16 0) ''mixed'',
           MockShift (at_time 738000 16 0) (at_time 738000 23 59) ''mixed''] 738000 738000)"
  using generate_schedule_idempotent [where gp = "\<lambda>i. Missing"
      and staff = "[new_staff 1, new_staff 2]"
      and shifts = "[MockShift (at_time 738000 8 0) (at_time 738000 16 0) ''mixed'',
           MockShift (at_time 738000 16 0) (at_time 738000 23 59) ''mixed'']"
      and start_date = 738000 and end_date = 738000]
  by simp

section \<open>Neutral staff in DayNightDistributeStrategy\<close>

lemma dn_staff_group_assigned [simp]:
  "dn_staff_group gp (p\<lparr>total_hours := h, assigned_shifts := a\<rparr>) = dn_staff_group gp p"
  by (simp add: dn_staff_group_def)

lemma dn_try_person_inv:
  assumes inv: "dn_neutral_inv gp G dst"
    and lt: "person < length G"
    and cand: "G ! person \<noteq> NeutralStaff \<or> person \<in> set (snd dst)"
  shows "dn_neutral_inv gp G (dn_try_person gp si dst person)
     \<and> set (snd dst) - {person} \<subseteq> set (snd (dn_try_person gp si dst person))"
proof (cases "fst (dn_assign_if_available gp person si (fst dst))")
  case False
  then have "dn_try_person gp si dst person = dst"
    by (simp add: dn_try_person_def dn_assign_if_available_def Let_def split: if_splits)
  with inv show ?thesis by auto
next
  case True
  let ?staff = "fst (fst dst)"
  let ?shifts = "snd (fst dst)"
  let ?neutral = "snd dst"
  let ?p = "?staff ! person"
  let ?p' = "?p\<lparr>total_hours := total_hours ?p + dn_get_shift_duration (?shifts ! si),
                  assigned_shifts := assigned_shifts ?p @ [si]\<rparr>"
  let ?neutral' = "if person \<in> set ?neutral then remove1 person ?neutral else ?neutral"
  from inv have len: "length ?staff = length G"
    unfolding dn_neutral_inv_def by (metis length_map)
  from True have res: "dn_try_person gp si dst person
      = ((?staff[person := ?p'], ?shifts[si := (?shifts ! si)\<lparr>assigned_staff :=
            assigned_staff (?shifts ! si) @ [person]\<rparr>]), ?neutral')"
    by (simp add: dn_try_person_def dn_assign_if_available_def dn_assign_shift_def Let_def
        split: if_splits)
  from inv have dist: "distinct ?neutral" by (simp add: dn_neutral_inv_def)
  have set': "set ?neutral' = set ?neutral - {person}"
    using dist by auto
  have g: "map (dn_staff_group gp) (?staff[person := ?p']) = G"
    using inv by (simp add: dn_neutral_inv_def map_update_same)
  have d: "distinct ?neutral'" using dist by simp
  have a: "\<forall>q \<in> set ?neutral'. q < length G \<and> G ! q = NeutralStaff
             \<and> assigned_shifts ((?staff[person := ?p']) ! q) = []"
  proof
    fix q assume "q \<in> set ?neutral'"
    with set' have q: "q \<in> set ?neutral" "q \<noteq> person" by auto
    with inv show "q < length G \<and> G ! q = NeutralStaff
             \<and> assigned_shifts ((?staff[person := ?p']) ! q) = []"
      by (simp add: dn_neutral_inv_def)
  qed
  have b: "\<forall>q < length G. G ! q = NeutralStaff \<and> q \<notin> set ?neutral'
             \<longrightarrow> length (assigned_shifts ((?staff[person := ?p']) ! q)) \<le> 1"
  proof (intro allI impI)
    fix q assume q: "q < length G" "G ! q = NeutralStaff \<and> q \<notin> set ?neutral'"
    show "length (assigned_shifts ((?staff[person := ?p']) ! q)) \<le> 1"
    proof (cases "q = person")
      case True
      with q cand have "person \<in> set ?neutral" by auto
      with inv have "assigned_shifts ?p = []" by (simp add: dn_neutral_inv_def)
      with True lt len show ?thesis by simp
    next
      case False
      with q set' have "q \<notin> set ?neutral" by auto
      with inv q have "length (assigned_shifts (?staff ! q)) \<le> 1"
        by (simp add: dn_neutral_inv_def)
      with False show ?thesis by simp
    qed
  qed
  from g d a b set' show ?thesis
    unfolding res dn_neutral_inv_def by simp
qed

lemma dn_try_all_inv:
  assumes "dn_neutral_inv gp G dst" "distinct cs"
    and "\<forall>c \<in> set cs. c < length G \<and> (G ! c \<noteq> NeutralStaff \<or> c \<in> set (snd dst))"
  shows "dn_neutral_inv gp G (foldl (dn_try_person gp si) dst cs)"
  using assms
proof (induction cs arbitrary: dst)
  case Nil
  then show ?case by simp
next
  case (Cons c cs)
  from Cons.prems have c: "c < length G" "G ! c \<noteq> NeutralStaff \<or> c \<in> set (snd dst)"
    by auto
  note step = dn_try_person_inv [OF Cons.prems(1) c, of si]
  have "\<forall>c' \<in> set cs. c' < length G
      \<and> (G ! c' \<noteq> NeutralStaff \<or> c' \<in> set (snd (dn_try_person gp si dst c)))"
  proof
    fix c' assume c': "c' \<in> set cs"
    with Cons.prems(2) have "c' \<noteq> c" by auto
    with c' Cons.prems(3) step
    show "c' < length G
      \<and> (G ! c' \<noteq> NeutralStaff \<or> c' \<in> set (snd (dn_try_person gp si dst c)))"
      by auto
  qed
  with Cons.IH [of "dn_try_person gp si dst c"] step Cons.prems(2)
  show ?case by simp
qed

lemma dn_fill_shift_inv:
  assumes inv: "dn_neutral_inv gp G dst" and "distinct preferring"
    and pref: "\<forall>c \<in> set preferring. c < length G \<and> G ! c \<noteq> NeutralStaff"
  shows "dn_neutral_inv gp G (dn_fill_shift gp preferring dst si)"
proof -
  let ?sh = "snd (fst dst) ! si"
  let ?needed = "get_required_staff ?sh - int (length (assigned_staff ?sh))"
  let ?cs = "take (nat ?needed)
      (sort_key (\<lambda>x. total_hours (fst (fst dst) ! x))
         (filter (\<lambda>s. dn_can_work_shift gp (fst (fst dst) ! s) ?sh) (preferring @ snd dst)))"
  from inv have n: "distinct (snd dst)"
    "\<forall>p \<in> set (snd dst). p < length G \<and> G ! p = NeutralStaff"
    by (auto simp: dn_neutral_inv_def)
  with assms(2) pref have "distinct (preferring @ snd dst)" by auto
  then have "distinct (sort_key (\<lambda>x. total_hours (fst (fst dst) ! x))
         (filter (\<lambda>s. dn_can_work_shift gp (fst (fst dst) ! s) ?sh) (preferring @ snd dst)))"
    unfolding distinct_sort by (rule distinct_filter)
  then have d: "distinct ?cs" by (rule distinct_take)
  have "set ?cs \<subseteq> set (preferring @ snd dst)"
    by (rule subset_trans [OF set_take_subset]) auto
  with pref n have "\<forall>c \<in> set ?cs. c < length G \<and> (G ! c \<noteq> NeutralStaff \<or> c \<in> set (snd dst))"
    by auto
  from dn_try_all_inv [OF inv d this, of si] inv show ?thesis
    by (simp add: dn_fill_shift_def Let_def)
qed

lemma dn_fill_all_inv:
  assumes "dn_neutral_inv gp G dst" "distinct preferring"
    "\<forall>c \<in> set preferring. c < length G \<and> G ! c \<noteq> NeutralStaff"
  shows "dn_neutral_inv gp G (foldl (dn_fill_shift gp preferring) dst sis)"
  using assms by (induction sis arbitrary: dst) (simp_all add: dn_fill_shift_inv)

lemma dn_group_members_props:
  "distinct (dn_group_members gp staff g)"
  "\<forall>c \<in> set (dn_group_members gp staff g). c < length staff \<and> dn_staff_group gp (staff ! c) = g"
  by (auto simp: dn_group_members_def)

lemma dn_preferring_props:
  assumes "g \<noteq> NeutralStaff"
  shows "\<forall>c \<in> set (dn_group_members gp (fst (reset_assignments staff shifts)) g).
     c < length (map (dn_staff_group gp) staff)
     \<and> map (dn_staff_group gp) staff ! c \<noteq> NeutralStaff"
proof
  fix c assume "c \<in> set (dn_group_members gp (fst (reset_assignments staff shifts)) g)"
  with dn_group_members_props(2) [of gp "fst (reset_assignments staff shifts)" g]
  have "c < length (fst (reset_assignments staff shifts))"
    "dn_staff_group gp (fst (reset_assignments staff shifts) ! c) = g"
    by auto
  with assms show "c < length (map (dn_staff_group gp) staff)
     \<and> map (dn_staff_group gp) staff ! c \<noteq> NeutralStaff"
    by (simp add: reset_assignments_def)
qed

lemma dn_initial_inv:
  "dn_neutral_inv gp (map (dn_staff_group gp) staff)
     (reset_assignments staff shifts,
      dn_group_members gp (fst (reset_assignments staff shifts)) NeutralStaff)"
  by (auto simp: dn_neutral_inv_def reset_assignments_def dn_group_members_def)

lemma dn_final_inv:
  "dn_neutral_inv gp (map (dn_staff_group gp) staff)
     (foldl (dn_fill_shift gp (dn_group_members gp (fst (reset_assignments staff shifts)) NightStaff))
        (foldl (dn_fill_shift gp (dn_group_members gp (fst (reset_assignments staff shifts)) DayStaff))
           (reset_assignments staff shifts,
            dn_group_members gp (fst (reset_assignments staff shifts)) NeutralStaff)
           (dn_day_shifts (snd (reset_assignments staff shifts))))
        (dn_night_shifts (snd (reset_assignments staff shifts))))"
proof -
  have day: "dn_neutral_inv gp (map (dn_staff_group gp) staff)
     (foldl (dn_fill_shift gp (dn_group_members gp (fst (reset_assignments staff shifts)) DayStaff))
           (reset_assignments staff shifts,
            dn_group_members gp (fst (reset_assignments staff shifts)) NeutralStaff)
           (dn_day_shifts (snd (reset_assignments staff shifts))))"
    by (rule dn_fill_all_inv [OF dn_initial_inv dn_group_members_props(1)])
      (rule dn_preferring_props, simp)
  show ?thesis
    by (rule dn_fill_all_inv [OF day dn_group_members_props(1)])
      (rule dn_preferring_props, simp)
qed

text \<open>
  C9. In a run of DayNightDistributeStrategy every staff member grouped as neutral ends
  with at most one assignment: a neutral member is removed from the pool at the first
  assignment, and later candidate lists are drawn from the pool.
\<close>

theorem dn_neutral_at_most_one_assignment:
  assumes "person < length staff" "dn_staff_group gp (staff ! person) = NeutralStaff"
  shows "length (assigned_shifts
            (fst (snd (dn_generate_schedule gp staff shifts start_date end_date)) ! person)) \<le> 1"
proof -
  let ?dst = "foldl (dn_fill_shift gp (dn_group_members gp (fst (reset_assignments staff shifts)) NightStaff))
        (foldl (dn_fill_shift gp (dn_group_members gp (fst (reset_assignments staff shifts)) DayStaff))
           (reset_assignments staff shifts,
            dn_group_members gp (fst (reset_assignments staff shifts)) NeutralStaff)
           (dn_day_shifts (snd (reset_assignments staff shifts))))
        (dn_night_shifts (snd (reset_assignments staff shifts)))"
  have st: "snd (dn_generate_schedule gp staff shifts start_date end_date) = fst ?dst"
    by (simp add: dn_generate_schedule_def Let_def)
  from dn_final_inv [of gp staff shifts] assms
  have "length (assigned_shifts (fst (fst ?dst) ! person)) \<le> 1"
    unfolding dn_neutral_inv_def
    by (cases "person \<in> set (snd ?dst)") auto
  with st show ?thesis by simp
qed

theorem dn_neutral_at_most_one_assignment_witness:
  "0 < length [new_staff 1, new_staff 2]
   \<and> dn_staff_group (\<lambda>i. Missing) ([new_staff 1, new_staff 2] ! 0) = NeutralStaff
   \<and> length (assigned_shifts
        (fst (snd (dn_generate_schedule (\<lambda>i. Missing) [new_staff 1, new_staff 2]
           [MockShift (at_time 738000 16 0) (at_time 738000 23 59) ''mixed'',
            MockShift (at_time 738001 16 0) (at_time 738001 23 59) ''mixed'',
            MockShift (at_time 738002 16 0) (at_time 738002 23 59) ''mixed'']
           738000 738002)) ! 0)) \<le> 1"
  using dn_neutral_at_most_one_assignment [where person = 0 and gp = "\<lambda>i. Missing"
      and staff = "[new_staff 1, new_staff 2]"
      and shifts = "[MockShift (at_time 738000 16 0) (at_time 738000 23 59) ''mixed'',
            MockShift (at_time 738001 16 0) (at_time 738001 23 59) ''mixed'',
            MockShift (at_time 738002 16 0) (at_time 738002 23 59) ''mixed'']"
      and start_date = 738000 and end_date = 738002]
  by (simp add: dn_staff_group_def new_staff_def)

end
